theory Spec2Isabelle
  imports Complex_Main
begin

section \<open>Data model\<close>

text \<open>
  Python exceptions that the modelled methods can raise. A method that can raise returns
  a sum whose left injection carries the exception.
\<close>

datatype error =
  AttributeError | KeyError | IndexError | ValueError | ZeroDivisionError | UnboundLocalError
  | SystemExit

subsection \<open>hash\_chain\_digest.py\<close>

text \<open>
  \<^verbatim>\<open>HashChainBlock\<close>: the five attributes set by the constructor. The block data is a
  \<^verbatim>\<open>RequestMessage\<close> in the annotations and a plain string on the replica's path, so it
  is a type parameter; Python's \<^verbatim>\<open>str()\<close> on it is the parameter \<open>str_of\<close>, and
  \<^verbatim>\<open>hashlib.sha256(...).hexdigest()\<close> is the parameter \<open>sha256_hex\<close>. The reading of
  \<^verbatim>\<open>time.time()\<close> taken by the constructor is the parameter \<open>now\<close>.
\<close>

record 'd HashChainBlock =
  data :: 'd
  sequence_number :: int
  timestamp :: real
  previous_hash :: string
  hash :: string

definition calculate_hash :: "(string \<Rightarrow> string) \<Rightarrow> ('d \<Rightarrow> string) \<Rightarrow> 'd \<Rightarrow> string \<Rightarrow> string" where
  "calculate_hash sha256_hex str_of d prev = sha256_hex (str_of d @ prev)"

definition HashChainBlock_init ::
  "(string \<Rightarrow> string) \<Rightarrow> ('d \<Rightarrow> string) \<Rightarrow> 'd \<Rightarrow> int \<Rightarrow> real \<Rightarrow> string \<Rightarrow> 'd HashChainBlock" where
  "HashChainBlock_init sha256_hex str_of d n now prev =
     \<lparr>data = d, sequence_number = n, timestamp = now, previous_hash = prev,
      hash = calculate_hash sha256_hex str_of d prev\<rparr>"

text \<open>\<^verbatim>\<open>HashChainDigest\<close> has the single attribute \<^verbatim>\<open>chain\<close>, a list of blocks.\<close>

type_synonym 'd HashChainDigest = "'d HashChainBlock list"

definition add_block ::
  "(string \<Rightarrow> string) \<Rightarrow> ('d \<Rightarrow> string) \<Rightarrow> 'd HashChainDigest \<Rightarrow> 'd \<Rightarrow> int \<Rightarrow> real \<Rightarrow> 'd HashChainDigest" where
  "add_block sha256_hex str_of chain block_data n now =
     (let prev = (if length chain = 0 then ''0'' else hash (last chain))
      in chain @ [HashChainBlock_init sha256_hex str_of block_data n now prev])"

definition get_last_block :: "'d HashChainDigest \<Rightarrow> 'd HashChainBlock option" where
  "get_last_block chain = (if length chain > 0 then Some (last chain) else None)"

text \<open>A sequence of \<^verbatim>\<open>add_block\<close> calls, each with its data, sequence number and clock reading.\<close>

fun add_blocks ::
  "(string \<Rightarrow> string) \<Rightarrow> ('d \<Rightarrow> string) \<Rightarrow> 'd HashChainDigest \<Rightarrow> ('d \<times> int \<times> real) list \<Rightarrow> 'd HashChainDigest" where
  "add_blocks sha256_hex str_of chain [] = chain"
| "add_blocks sha256_hex str_of chain ((d, n, now) # calls) =
     add_blocks sha256_hex str_of (add_block sha256_hex str_of chain d n now) calls"

text \<open>
  The preimage the specification asks for, \<open>H(n \<parallel> encode(data) \<parallel> prev)\<close>, written from
  the specification's words for comparison with \<^const>\<open>calculate_hash\<close>; \<open>enc\<close> encodes the
  sequence number.
\<close>

definition spec_hash ::
  "(string \<Rightarrow> string) \<Rightarrow> (int \<Rightarrow> string) \<Rightarrow> ('d \<Rightarrow> string) \<Rightarrow> int \<Rightarrow> 'd \<Rightarrow> string \<Rightarrow> string" where
  "spec_hash sha256_hex enc str_of n d prev = sha256_hex (enc n @ str_of d @ prev)"

text \<open>
  The specification's \<open>append(request, seq)\<close>, written from its words for comparison with
  \<^const>\<open>add_block\<close>: it requires \<open>seq = len(chain)\<close> and fails with a sequence gap otherwise.
\<close>

datatype spec_error = SequenceGap

definition spec_append ::
  "(string \<Rightarrow> string) \<Rightarrow> ('d \<Rightarrow> string) \<Rightarrow> 'd HashChainDigest \<Rightarrow> 'd \<Rightarrow> int \<Rightarrow> real
     \<Rightarrow> spec_error + 'd HashChainDigest" where
  "spec_append sha256_hex str_of chain d n now =
     (if n = int (length chain) then Inr (add_block sha256_hex str_of chain d n now)
      else Inl SequenceGap)"

text \<open>The chain invariant of the specification, clause by clause.\<close>

definition first_prev_zero :: "'d HashChainDigest \<Rightarrow> bool" where
  "first_prev_zero chain = (case chain of [] \<Rightarrow> True | b # _ \<Rightarrow> previous_hash b = ''0'')"

fun linked :: "'d HashChainDigest \<Rightarrow> bool" where
  "linked [] = True"
| "linked [b] = True"
| "linked (a # b # bs) = (previous_hash b = hash a \<and> linked (b # bs))"

fun contiguous :: "'d HashChainDigest \<Rightarrow> bool" where
  "contiguous [] = True"
| "contiguous [b] = True"
| "contiguous (a # b # bs) = (sequence_number b = sequence_number a + 1 \<and> contiguous (b # bs))"

subsection \<open>version\_vector.py\<close>

text \<open>
  \<^verbatim>\<open>VersionVectorEntry\<close>. The digest slot holds a \<^verbatim>\<open>HashChainDigest\<close> object in process and
  a string after deserialisation; it is a type parameter whose equality is Python's \<^verbatim>\<open>==\<close>
  on those values (content for strings, identity for objects, no class of the repository
  defining \<^verbatim>\<open>__eq__\<close>).
\<close>

record 'h VersionVectorEntry =
  vve_replica_id :: int
  vve_view :: int
  vve_sequence_number :: int
  vve_hcd :: 'h

definition VersionVectorEntry_init :: "int \<Rightarrow> int \<Rightarrow> int \<Rightarrow> 'h \<Rightarrow> 'h VersionVectorEntry" where
  "VersionVectorEntry_init r v n h =
     \<lparr>vve_replica_id = r, vve_view = v, vve_sequence_number = n, vve_hcd = h\<rparr>"

text \<open>
  \<^verbatim>\<open>VersionVector.vector\<close> is a dict from ids to lists of entries. A Python dict iterates in
  insertion order, so it is an association list in insertion order with distinct keys.
  \<open>dict_append k v d\<close> is \<^verbatim>\<open>if k not in d: d[k] = []\<close> followed by \<^verbatim>\<open>d[k].append(v)\<close>.
\<close>

type_synonym 'h VersionVector = "(int \<times> 'h VersionVectorEntry list) list"

definition dict_append :: "'k \<Rightarrow> 'v \<Rightarrow> ('k \<times> 'v list) list \<Rightarrow> ('k \<times> 'v list) list" where
  "dict_append k v d =
     (let d' = (if k \<notin> set (map fst d) then d @ [(k, [])] else d)
      in map (\<lambda>(k', vs). if k' = k then (k', vs @ [v]) else (k', vs)) d')"

definition update_entry ::
  "'h VersionVector \<Rightarrow> int \<Rightarrow> int \<Rightarrow> int \<Rightarrow> int \<Rightarrow> 'h \<Rightarrow> 'h VersionVector" where
  "update_entry vector vector_id entry_id v n h =
     dict_append vector_id (VersionVectorEntry_init entry_id v n h) vector"

definition get_entries :: "'h VersionVector \<Rightarrow> int \<Rightarrow> error + 'h VersionVectorEntry list" where
  "get_entries vector rid = (case map_of vector rid of None \<Rightarrow> Inl KeyError | Some es \<Rightarrow> Inr es)"

text \<open>Indexing a Python list: an index from \<open>-len\<close> up to \<open>len - 1\<close> is served, the negative ones from the end; any other raises.\<close>

definition py_index :: "'a list \<Rightarrow> int \<Rightarrow> error + 'a" where
  "py_index xs i =
     (if 0 \<le> i \<and> i < int (length xs) then Inr (xs ! nat i)
      else if i < 0 \<and> - int (length xs) \<le> i then Inr (xs ! nat (int (length xs) + i))
      else Inl IndexError)"

definition get_entry :: "'h VersionVector \<Rightarrow> int \<Rightarrow> int \<Rightarrow> error + 'h VersionVectorEntry" where
  "get_entry vector vector_replica_id entry_replica_id =
     (case get_entries vector vector_replica_id of
        Inl e \<Rightarrow> Inl e
      | Inr es \<Rightarrow> py_index es entry_replica_id)"

definition is_empty :: "'h VersionVector \<Rightarrow> bool" where
  "is_empty vector = (vector = [])"

text \<open>
  \<^verbatim>\<open>get_current_system_state\<close>. The counter's key is \<^verbatim>\<open>(str(seq), hcd)\<close>; \<^verbatim>\<open>str\<close> is
  one-to-one on integers, so the key is modelled as the pair of the sequence number and the
  digest. The first loop nest fills the counter from every entry of every list; the second
  loop returns from the first counter item, in insertion order, with at least \<open>2f + 1\<close>
  entries. Python's \<^verbatim>\<open>min\<close> keeps the first of several minimal items and raises
  \<^verbatim>\<open>ValueError\<close> on an empty list.
\<close>

definition counter_key :: "'h VersionVectorEntry \<Rightarrow> int \<times> 'h" where
  "counter_key entry = (vve_sequence_number entry, vve_hcd entry)"

definition build_counter ::
  "'h VersionVector \<Rightarrow> ((int \<times> 'h) \<times> 'h VersionVectorEntry list) list" where
  "build_counter vector =
     foldl (\<lambda>counter entries.
              foldl (\<lambda>counter entry. dict_append (counter_key entry) entry counter) counter entries)
       [] (map snd vector)"

fun min_by_replica_id ::
  "'h VersionVectorEntry \<Rightarrow> 'h VersionVectorEntry list \<Rightarrow> 'h VersionVectorEntry" where
  "min_by_replica_id best [] = best"
| "min_by_replica_id best (e # es) =
     min_by_replica_id (if vve_replica_id e < vve_replica_id best then e else best) es"

fun scan_counter ::
  "int \<Rightarrow> ((int \<times> 'h) \<times> 'h VersionVectorEntry list) list
     \<Rightarrow> error + 'h VersionVectorEntry option" where
  "scan_counter f [] = Inr None"
| "scan_counter f ((key, entries) # rest) =
     (if int (length entries) \<ge> (2 * f) + 1
      then (case entries of
              [] \<Rightarrow> Inl ValueError
            | e # es \<Rightarrow> Inr (Some (min_by_replica_id e es)))
      else scan_counter f rest)"

definition get_current_system_state ::
  "'h VersionVector \<Rightarrow> int \<Rightarrow> error + 'h VersionVectorEntry option" where
  "get_current_system_state vector f = scan_counter f (build_counter vector)"

text \<open>
  Vocabulary for the statements about \<^const>\<open>get_current_system_state\<close>: every entry of
  the vector in iteration order, the entries that carry a given (sequence number, digest)
  pair, and the distinct pairs in order of first appearance.
\<close>

definition all_entries :: "'h VersionVector \<Rightarrow> 'h VersionVectorEntry list" where
  "all_entries vector = concat (map snd vector)"

definition group_of :: "'h VersionVector \<Rightarrow> int \<times> 'h \<Rightarrow> 'h VersionVectorEntry list" where
  "group_of vector k = filter (\<lambda>e. counter_key e = k) (all_entries vector)"

definition first_seen :: "'a list \<Rightarrow> 'a list" where
  "first_seen xs = rev (remdups (rev xs))"

definition key_order :: "'h VersionVector \<Rightarrow> (int \<times> 'h) list" where
  "key_order vector = first_seen (map counter_key (all_entries vector))"

definition flat_counter ::
  "'h VersionVectorEntry list \<Rightarrow> ((int \<times> 'h) \<times> 'h VersionVectorEntry list) list" where
  "flat_counter es = foldl (\<lambda>counter entry. dict_append (counter_key entry) entry counter) [] es"

text \<open>
  What the specification counts, written from its words: the principals whose latest entry
  carries the pair \<open>k\<close>.
\<close>

definition latest_holders :: "'h VersionVector \<Rightarrow> int \<times> 'h \<Rightarrow> int list" where
  "latest_holders vector k =
     map fst (filter (\<lambda>(p, es). es \<noteq> [] \<and> counter_key (last es) = k) vector)"


subsection \<open>Messages\<close>

datatype MessageType =
  PRE_PREPARE | PREPARE | COMMIT | REPLY | REQUEST | VIEW_CHANGE | PRIMARY_NOT_DOMINANT
  | OPERATIONS_DICTIONARY | NEW_VIEW | CHECKPOINT

text \<open>
  \<^verbatim>\<open>str()\<close> of an enum member, and of the primitive values that \<^verbatim>\<open>to_string\<close> formats.
  The formatting of integers, floats and digests is left to the parameters \<open>str_int\<close>,
  \<open>str_float\<close> and \<open>str_hcd\<close>; the literal parts of the f-strings are written out.
\<close>

fun str_MessageType :: "MessageType \<Rightarrow> string" where
  "str_MessageType PRE_PREPARE = ''MessageType.PRE_PREPARE''"
| "str_MessageType PREPARE = ''MessageType.PREPARE''"
| "str_MessageType COMMIT = ''MessageType.COMMIT''"
| "str_MessageType REPLY = ''MessageType.REPLY''"
| "str_MessageType REQUEST = ''MessageType.REQUEST''"
| "str_MessageType VIEW_CHANGE = ''MessageType.VIEW_CHANGE''"
| "str_MessageType PRIMARY_NOT_DOMINANT = ''MessageType.PRIMARY_NOT_DOMINANT''"
| "str_MessageType OPERATIONS_DICTIONARY = ''MessageType.OPERATIONS_DICTIONARY''"
| "str_MessageType NEW_VIEW = ''MessageType.NEW_VIEW''"
| "str_MessageType CHECKPOINT = ''MessageType.CHECKPOINT''"

definition str_opt :: "('a \<Rightarrow> string) \<Rightarrow> 'a option \<Rightarrow> string" where
  "str_opt str_a x = (case x of None \<Rightarrow> ''None'' | Some a \<Rightarrow> str_a a)"

definition Message_to_string ::
  "(int \<Rightarrow> string) \<Rightarrow> MessageType \<Rightarrow> int option \<Rightarrow> int option \<Rightarrow> string" where
  "Message_to_string str_int message_type v n =
     ''Type: '' @ str_MessageType message_type @ '', View: '' @ str_opt str_int v
       @ '', Sequence Number: '' @ str_opt str_int n @ '', ''"

text \<open>
  \<^verbatim>\<open>RequestMessage\<close>: the base-class fields are \<^verbatim>\<open>REQUEST\<close>, \<^verbatim>\<open>None\<close>, \<^verbatim>\<open>None\<close>.
\<close>

record RequestMessage =
  operation :: string
  req_timestamp :: real
  req_client_id :: int
  current_system_state :: string

definition RequestMessage_to_string ::
  "(int \<Rightarrow> string) \<Rightarrow> (real \<Rightarrow> string) \<Rightarrow> RequestMessage \<Rightarrow> string" where
  "RequestMessage_to_string str_int str_float m =
     Message_to_string str_int REQUEST None None
       @ ''Client ID: '' @ str_int (req_client_id m) @ '', Operation: '' @ operation m
       @ '', Timestamp: '' @ str_float (req_timestamp m)
       @ '', Current System State: '' @ current_system_state m"

text \<open>
  \<^verbatim>\<open>ReplyMessage\<close> with its \<^verbatim>\<open>Entry\<close>; the base-class fields are \<^verbatim>\<open>REPLY\<close>, \<^verbatim>\<open>None\<close>,
  \<^verbatim>\<open>None\<close>. The result is the boolean of \<^verbatim>\<open>execute_operation\<close> at the replica and a string
  after deserialisation at the client.
\<close>

record 'h Entry =
  entry_replica_id :: int
  entry_view :: int
  entry_sequence_number :: int
  entry_hcd :: 'h

datatype pyresult = ResultBool bool | ResultStr string

fun str_pyresult :: "pyresult \<Rightarrow> string" where
  "str_pyresult (ResultBool b) = (if b then ''True'' else ''False'')"
| "str_pyresult (ResultStr s) = s"

record 'h ReplyMessage =
  reply_client_id :: int
  reply_timestamp :: real
  reply_result :: pyresult
  reply_entry :: "'h Entry"

definition ReplyMessage_init ::
  "int \<Rightarrow> real \<Rightarrow> pyresult \<Rightarrow> int \<Rightarrow> int \<Rightarrow> int \<Rightarrow> 'h \<Rightarrow> 'h ReplyMessage" where
  "ReplyMessage_init cid t res rid v n h =
     \<lparr>reply_client_id = cid, reply_timestamp = t, reply_result = res,
      reply_entry = \<lparr>entry_replica_id = rid, entry_view = v, entry_sequence_number = n,
                      entry_hcd = h\<rparr>\<rparr>"

definition Entry_to_string :: "(int \<Rightarrow> string) \<Rightarrow> ('h \<Rightarrow> string) \<Rightarrow> 'h Entry \<Rightarrow> string" where
  "Entry_to_string str_int str_hcd e =
     ''Replica ID: '' @ str_int (entry_replica_id e) @ '', View: '' @ str_int (entry_view e)
       @ '', Sequence Number: '' @ str_int (entry_sequence_number e)
       @ '', HCD: '' @ str_hcd (entry_hcd e)"

definition ReplyMessage_to_string ::
  "(int \<Rightarrow> string) \<Rightarrow> (real \<Rightarrow> string) \<Rightarrow> ('h \<Rightarrow> string) \<Rightarrow> 'h ReplyMessage \<Rightarrow> string" where
  "ReplyMessage_to_string str_int str_float str_hcd m =
     Message_to_string str_int REPLY None None
       @ ''Client ID: '' @ str_int (reply_client_id m)
       @ '', Timestamp: '' @ str_float (reply_timestamp m)
       @ '', Result: '' @ str_pyresult (reply_result m)
       @ '', Entry: '' @ Entry_to_string str_int str_hcd (reply_entry m)"

text \<open>
  The ordering messages. The request slot of a pre-prepare or prepare holds a
  \<^verbatim>\<open>RequestMessage\<close> where \<^verbatim>\<open>receive_request\<close> builds it and a string after
  deserialisation, so it is a type parameter, with the equality that Python's \<^verbatim>\<open>==\<close> has
  on those values.
\<close>

record 'm PrePrepareMessage =
  pp_primary_replica_id :: int
  pp_view :: int
  pp_sequence_number :: int
  pp_request_msg :: 'm

record 'm PrepareMessage =
  p_replica_id :: int
  p_view :: int
  p_sequence_number :: int
  p_request_msg :: 'm

record 'h CommitMessage =
  c_replica_id :: int
  c_view :: int
  c_sequence_number :: int
  c_hcd :: 'h

text \<open>
  \<^verbatim>\<open>ViewChangeMessage\<close>: the constructor wraps its four \<^verbatim>\<open>vv_\<close> arguments into a
  \<^verbatim>\<open>VersionVectorEntry\<close>. \<^verbatim>\<open>P\<close> is the list that \<^verbatim>\<open>deserialize_message\<close> builds, a list of
  one-character strings.
\<close>

record 'h ViewChangeMessage =
  vc_new_view :: int
  vc_replica_id :: int
  vc_version_vector_entry :: "'h VersionVectorEntry"
  vc_P :: "string list"

text \<open>
  What the reply cache holds for a client: the annotation says a \<^verbatim>\<open>ReplyMessage\<close>, and
  \<^verbatim>\<open>receive_commit\<close> stores the string \<^verbatim>\<open>reply_message.to_string()\<close>.
\<close>

datatype 'h cached = ReplyObject "'h ReplyMessage" | ReplyString string

record 'h CheckpointMessage =
  cp_behind_replica_id :: int
  cp_sequence_number :: int
  cp_rcache_n :: "'h cached option"
  cp_version_vector :: "'h VersionVector"
  cp_E :: "'h VersionVectorEntry list"

text \<open>
  A datagram is the destination and the object whose \<^verbatim>\<open>encode()\<close> is sent. The transport
  is outside the model: \<^verbatim>\<open>connect\<close> and \<^verbatim>\<open>send\<close> are taken to succeed.
\<close>

datatype ('m, 'h) wire =
  WPrePrepare "RequestMessage PrePrepareMessage"
| WPrepare "'m PrepareMessage"
| WReply "'h ReplyMessage"
| WString string
| WCheckpoint "'h CheckpointMessage"

type_synonym ('m, 'h) datagram = "string \<times> int \<times> ('m, 'h) wire"

subsection \<open>client.py\<close>

text \<open>
  The client's attributes that the modelled methods touch. \<^verbatim>\<open>ReplyMessage\<close> and \<^verbatim>\<open>Entry\<close>
  define no \<^verbatim>\<open>__eq__\<close>, so \<^verbatim>\<open>==\<close> and \<^verbatim>\<open>in\<close> on them compare object identity: a received
  reply is stored with the identity of its object, a natural number. Each
  \<^verbatim>\<open>ReplyMessage\<close> builds its own \<^verbatim>\<open>Entry\<close> in its constructor and never shares it, so
  two entries are the same object exactly when their replies are.
\<close>

record 'h Client =
  client_host :: string
  client_port :: int
  client_id :: int
  client_version_vector :: "'h VersionVector"
  client_f :: int
  received_replies :: "(nat \<times> 'h ReplyMessage) list"
  pending_requests :: "RequestMessage list"

subsection \<open>replica.py\<close>

text \<open>
  An element of \<^verbatim>\<open>self.replicas\<close>: the replica itself, another replica object (with the
  attributes read through it), or the string \<^verbatim>\<open>'Replica not found'\<close> that
  \<^verbatim>\<open>find_replica\<close> returns and \<^verbatim>\<open>add_replica\<close> then appends.
\<close>

record PeerInfo =
  peer_replica_id :: int
  peer_host :: string
  peer_port :: int
  peer_vv_is_empty :: bool

datatype peer = SelfRef | PeerRef PeerInfo | NotFoundStr

text \<open>
  The replica's attributes. \<open>hcd_ref\<close> is the value that stands for the reference to
  the replica's own \<^verbatim>\<open>HashChainDigest\<close> object where the code stores \<^verbatim>\<open>self.hcd\<close> in a
  message; \<open>hcd\<close> is the content of that object. \<open>timer\<close> tells whether \<^verbatim>\<open>self.timer\<close> is
  set. A received commit is stored with the identity of its object
  (\<^verbatim>\<open>CommitMessage\<close> defines no \<^verbatim>\<open>__eq__\<close>).
\<close>

record ('m, 'h) Replica =
  host :: string
  port :: int
  fault_tolerance :: int
  replica_id :: int
  view :: int
  reply_cache :: "int \<Rightarrow> 'h cached option"
  version_vector :: "'h VersionVector"
  hcd :: "'m HashChainDigest"
  hcd_ref :: 'h
  clients :: "'h Client list"
  replicas :: "peer list"
  primary :: bool
  accepted_requests :: "RequestMessage list"
  received_pre_prepare_messages :: "'m PrePrepareMessage list"
  received_prepare_messages :: "'m PrepareMessage list"
  received_commit_messages :: "(nat \<times> 'h CommitMessage) list"
  received_view_change_messages :: "'h ViewChangeMessage list"
  pending_checkpoints :: "int \<Rightarrow> 'h CheckpointMessage option"
  timer :: bool

definition CHECKPOINT_INTERVAL :: int where
  "CHECKPOINT_INTERVAL = 100"

text \<open>
  \<^verbatim>\<open>Replica.__init__\<close>. The class attribute \<^verbatim>\<open>_id_counter\<close> is passed in and returned
  incremented. Python's \<^verbatim>\<open>%\<close> raises on a zero modulus and otherwise agrees with
  \<open>mod\<close> on integers (the result has the sign of the modulus). The listener thread that
  the constructor starts is outside the model.
\<close>

definition Replica_init ::
  "nat \<Rightarrow> 'h \<Rightarrow> string \<Rightarrow> int \<Rightarrow> int \<Rightarrow> int \<Rightarrow> 'h Client list \<Rightarrow> peer list
     \<Rightarrow> error + (('m, 'h) Replica \<times> nat)" where
  "Replica_init id_counter new_hcd h p f v cs rs =
     (if 3 * (f + 1) = 0 then Inl ZeroDivisionError
      else Inr (\<lparr>host = h, port = p, fault_tolerance = f, replica_id = int id_counter,
                 view = v, reply_cache = (\<lambda>_. None), version_vector = [], hcd = [],
                 hcd_ref = new_hcd, clients = cs, replicas = rs,
                 primary = (if v mod (3 * (f + 1)) = int id_counter then True else False),
                 accepted_requests = [], received_pre_prepare_messages = [],
                 received_prepare_messages = [], received_commit_messages = [],
                 received_view_change_messages = [], pending_checkpoints = (\<lambda>_. None),
                 timer = False\<rparr>, id_counter + 1))"

definition is_primary :: "('m, 'h) Replica \<Rightarrow> bool" where
  "is_primary s = primary s"

text \<open>Attribute access through an element of \<^verbatim>\<open>self.replicas\<close>; the string has none.\<close>

fun peer_id :: "('m, 'h) Replica \<Rightarrow> peer \<Rightarrow> error + int" where
  "peer_id s SelfRef = Inr (replica_id s)"
| "peer_id s (PeerRef p) = Inr (peer_replica_id p)"
| "peer_id s NotFoundStr = Inl AttributeError"

fun peer_address :: "('m, 'h) Replica \<Rightarrow> peer \<Rightarrow> error + (string \<times> int)" where
  "peer_address s SelfRef = Inr (host s, port s)"
| "peer_address s (PeerRef p) = Inr (peer_host p, peer_port p)"
| "peer_address s NotFoundStr = Inl AttributeError"

text \<open>
  \<^verbatim>\<open>find_replica\<close>: the first element with the id, or the string
  \<^verbatim>\<open>'Replica not found'\<close>; calling \<^verbatim>\<open>get_replica_id\<close> on a string element met on the way
  raises.
\<close>

fun find_replica_in :: "('m, 'h) Replica \<Rightarrow> peer list \<Rightarrow> int \<Rightarrow> error + peer" where
  "find_replica_in s [] rid = Inr NotFoundStr"
| "find_replica_in s (r # rs) rid =
     (case peer_id s r of
        Inl e \<Rightarrow> Inl e
      | Inr i \<Rightarrow> if i = rid then Inr r else find_replica_in s rs rid)"

definition find_replica :: "('m, 'h) Replica \<Rightarrow> int \<Rightarrow> error + peer" where
  "find_replica s rid = find_replica_in s (replicas s) rid"

definition add_replica :: "('m, 'h) Replica \<Rightarrow> peer \<Rightarrow> ('m, 'h) Replica" where
  "add_replica s r = (if r \<notin> set (replicas s) then s\<lparr>replicas := replicas s @ [r]\<rparr> else s)"

text \<open>\<^verbatim>\<open>find_client\<close>: \<open>None\<close> stands for the string \<^verbatim>\<open>'Client not found'\<close>.\<close>

definition find_client :: "('m, 'h) Replica \<Rightarrow> int \<Rightarrow> 'h Client option" where
  "find_client s cid = find (\<lambda>c. client_id c = cid) (clients s)"

definition start_timer :: "('m, 'h) Replica \<Rightarrow> ('m, 'h) Replica" where
  "start_timer s = (if \<not> timer s then s\<lparr>timer := True\<rparr> else s)"

text \<open>
  \<^verbatim>\<open>multicast_message\<close>: one datagram per element of \<^verbatim>\<open>self.replicas\<close>, in order; a
  string element raises after the datagrams before it have been sent.
\<close>

fun multicast_to ::
  "('m, 'h) Replica \<Rightarrow> peer list \<Rightarrow> ('m, 'h) wire \<Rightarrow> ('m, 'h) datagram list \<times> error option" where
  "multicast_to s [] w = ([], None)"
| "multicast_to s (r # rs) w =
     (case peer_address s r of
        Inl e \<Rightarrow> ([], Some e)
      | Inr (h, p) \<Rightarrow> (case multicast_to s rs w of (sent, err) \<Rightarrow> ((h, p, w) # sent, err)))"

definition multicast_message ::
  "('m, 'h) Replica \<Rightarrow> ('m, 'h) wire \<Rightarrow> ('m, 'h) datagram list \<times> error option" where
  "multicast_message s w = multicast_to s (replicas s) w"

text \<open>
  \<^verbatim>\<open>send_reply\<close>: the address of the client is looked up first (the string
  \<^verbatim>\<open>'Client not found'\<close> has no \<^verbatim>\<open>get_host\<close>), then \<^verbatim>\<open>reply_message.encode()\<close> is
  evaluated, which \<^verbatim>\<open>None\<close> does not have.
\<close>

definition wire_of_cached :: "'h cached \<Rightarrow> ('m, 'h) wire" where
  "wire_of_cached c = (case c of ReplyObject r \<Rightarrow> WReply r | ReplyString str \<Rightarrow> WString str)"

definition send_reply ::
  "('m, 'h) Replica \<Rightarrow> int \<Rightarrow> 'h cached option \<Rightarrow> error + ('m, 'h) datagram" where
  "send_reply s cid reply_message =
     (case find_client s cid of
        None \<Rightarrow> Inl AttributeError
      | Some c \<Rightarrow>
          (case reply_message of
             None \<Rightarrow> Inl AttributeError
           | Some m \<Rightarrow> Inr (client_host c, client_port c, wire_of_cached m)))"

text \<open>
  A handler returns the replica's state when it returns or raises, the datagrams it has
  sent, and the exception it raised, if any.
\<close>

type_synonym ('m, 'h) outcome = "('m, 'h) Replica \<times> ('m, 'h) datagram list \<times> error option"


text \<open>
  The two statements that open \<^verbatim>\<open>receive_pre_prepare\<close>, \<^verbatim>\<open>receive_prepare\<close> and
  \<^verbatim>\<open>receive_commit\<close>: \<^verbatim>\<open>replica = self.find_replica(id)\<close>, then
  \<^verbatim>\<open>if replica not in self.replicas: self.add_replica(replica)\<close>.
\<close>

definition note_sender :: "('m, 'h) Replica \<Rightarrow> int \<Rightarrow> error + ('m, 'h) Replica" where
  "note_sender s rid =
     (case find_replica s rid of
        Inl e \<Rightarrow> Inl e
      | Inr r \<Rightarrow> Inr (if r \<notin> set (replicas s) then add_replica s r else s))"

text \<open>
  \<^verbatim>\<open>receive_pre_prepare\<close>. The method has no test of \<^verbatim>\<open>self.primary\<close>. A pre-prepare with
  the same sequence number and another request, or with a sequence number more than two
  away from the last block's, makes it return; otherwise it records the message and
  multicasts a PREPARE built by \<^verbatim>\<open>create_message\<close>.
\<close>

definition receive_pre_prepare ::
  "('m, 'h) Replica \<Rightarrow> 'm PrePrepareMessage \<Rightarrow> ('m, 'h) outcome" where
  "receive_pre_prepare s d =
     (case note_sender s (pp_primary_replica_id d) of
        Inl e \<Rightarrow> (s, [], Some e)
      | Inr s1 \<Rightarrow>
          (let s2 = (if received_pre_prepare_messages s1 = []
                     then s1\<lparr>received_pre_prepare_messages := [d]\<rparr> else s1)
           in if (\<exists>r \<in> set (received_pre_prepare_messages s2).
                    pp_sequence_number r = pp_sequence_number d
                    \<and> pp_request_msg r \<noteq> pp_request_msg d)
              then (s2, [], None)
              else if length (hcd s2) > 0
                      \<and> (pp_sequence_number d > sequence_number (last (hcd s2)) + 2
                         \<or> pp_sequence_number d < sequence_number (last (hcd s2)) - 2)
              then (s2, [], None)
              else (let s3 = s2\<lparr>received_pre_prepare_messages :=
                                    received_pre_prepare_messages s2 @ [d]\<rparr>;
                        prepare_message =
                          \<lparr>p_replica_id = replica_id s3, p_view = view s3,
                           p_sequence_number = pp_sequence_number d,
                           p_request_msg = pp_request_msg d\<rparr>
                    in (case multicast_message s3 (WPrepare prepare_message) of
                          (sent, err) \<Rightarrow> (s3, sent, err)))))"

text \<open>
  \<^verbatim>\<open>execute_operation\<close> prints and returns \<^verbatim>\<open>True\<close>.
\<close>

definition execute_operation :: "string \<Rightarrow> bool" where
  "execute_operation op = True"

text \<open>
  The loop that fills \<^verbatim>\<open>E\<close> in the checkpoint branch of \<^verbatim>\<open>receive_commit\<close>. Its condition
  is \<^verbatim>\<open>vv.is_empty() and vv.get_entry(...)...\<close>: on the string element it raises, on an
  empty vector the lookup raises \<^verbatim>\<open>KeyError\<close>, on a non-empty vector it is false. So the
  loop either raises or leaves \<^verbatim>\<open>E\<close> empty.
\<close>

fun checkpoint_scan :: "('m, 'h) Replica \<Rightarrow> peer list \<Rightarrow> error option" where
  "checkpoint_scan s [] = None"
| "checkpoint_scan s (NotFoundStr # rs) = Some AttributeError"
| "checkpoint_scan s (SelfRef # rs) =
     (if is_empty (version_vector s) then Some KeyError else checkpoint_scan s rs)"
| "checkpoint_scan s (PeerRef p # rs) =
     (if peer_vv_is_empty p then Some KeyError else checkpoint_scan s rs)"

text \<open>
  \<^verbatim>\<open>receive_commit\<close>, in three parts: recording the commit (the update of the version
  vector and the append, by object identity, to the received commits), counting the
  matching commits, and what the method does once \<open>2f + 1\<close> of them are held.
\<close>

definition record_commit ::
  "('m, 'h) Replica \<Rightarrow> nat \<Rightarrow> 'h CommitMessage \<Rightarrow> ('m, 'h) Replica" where
  "record_commit s ref d =
     (let s2 = s\<lparr>version_vector :=
                   update_entry (version_vector s) (replica_id s) (c_replica_id d) (view s)
                     (c_sequence_number d) (c_hcd d)\<rparr>
      in if ref \<notin> set (map fst (received_commit_messages s2))
         then s2\<lparr>received_commit_messages := received_commit_messages s2 @ [(ref, d)]\<rparr>
         else s2)"

definition matching_commits :: "('m, 'h) Replica \<Rightarrow> 'h CommitMessage \<Rightarrow> int" where
  "matching_commits s d =
     int (length (filter (\<lambda>(ref, c). c_sequence_number c = c_sequence_number d \<and> c_hcd c = c_hcd d)
                    (received_commit_messages s)))"

definition commit_quorum_reached ::
  "(int \<Rightarrow> string) \<Rightarrow> (real \<Rightarrow> string) \<Rightarrow> ('h \<Rightarrow> string)
     \<Rightarrow> ('m, 'h) Replica \<Rightarrow> 'h CommitMessage \<Rightarrow> ('m, 'h) outcome" where
  "commit_quorum_reached str_int str_float str_hcd s d =
     (case (if length (accepted_requests s) > 0
            then Inr (accepted_requests s ! (length (accepted_requests s) - 1))
            else py_index (accepted_requests s) 0) of
        Inl e \<Rightarrow> (s, [], Some e)
      | Inr msg_n \<Rightarrow>
          (let cid = req_client_id msg_n;
               result = execute_operation (operation msg_n);
               step = (if result
                       then (let reply_message =
                                   ReplyMessage_init cid (req_timestamp msg_n) (ResultBool result)
                                     (replica_id s) (view s) (c_sequence_number d) (hcd_ref s);
                                 s4 = s\<lparr>reply_cache := (reply_cache s)(cid \<mapsto>
                                          ReplyString (ReplyMessage_to_string str_int str_float
                                                         str_hcd reply_message))\<rparr>
                             in (case send_reply s4 cid (Some (ReplyObject reply_message)) of
                                   Inl e \<Rightarrow> (s4, [], Some e)
                                 | Inr dg \<Rightarrow> (s4, [dg], None)))
                       else (s, [], None))
           in (case step of
                 (s4, sent, Some e) \<Rightarrow> (s4, sent, Some e)
               | (s4, sent, None) \<Rightarrow>
                   if c_sequence_number d mod CHECKPOINT_INTERVAL = 0
                   then (case checkpoint_scan s4 (replicas s4) of
                           Some e \<Rightarrow> (s4, sent, Some e)
                         | None \<Rightarrow>
                             (let checkpoint_message =
                                    \<lparr>cp_behind_replica_id = replica_id s4,
                                     cp_sequence_number = c_sequence_number d,
                                     cp_rcache_n = reply_cache s4 cid,
                                     cp_version_vector = version_vector s4, cp_E = []\<rparr>;
                                  s5 = s4\<lparr>pending_checkpoints := (pending_checkpoints s4)
                                           (c_sequence_number d \<mapsto> checkpoint_message)\<rparr>
                              in (case multicast_message s5 (WCheckpoint checkpoint_message) of
                                    (sent', err) \<Rightarrow> (s5, sent @ sent', err))))
                   else (s4, sent, None))))"

definition receive_commit ::
  "(int \<Rightarrow> string) \<Rightarrow> (real \<Rightarrow> string) \<Rightarrow> ('h \<Rightarrow> string)
     \<Rightarrow> ('m, 'h) Replica \<Rightarrow> nat \<times> 'h CommitMessage \<Rightarrow> ('m, 'h) outcome" where
  "receive_commit str_int str_float str_hcd s rd =
     (case rd of (ref, d) \<Rightarrow>
        (case note_sender s (c_replica_id d) of
           Inl e \<Rightarrow> (s, [], Some e)
         | Inr s1 \<Rightarrow>
             (let s3 = record_commit s1 ref d
              in if matching_commits s3 d \<ge> (fault_tolerance s3 * 2) + 1
                 then commit_quorum_reached str_int str_float str_hcd s3 d
                 else (s3, [], None))))"

text \<open>
  \<^verbatim>\<open>receive_request\<close>. The first test calls \<^verbatim>\<open>to_string()\<close> on the cached value, which a
  cached string does not have. The timestamp of the request is compared with the
  timestamp of the last block of the hash chain. In the acceptance test the client's
  \<^verbatim>\<open>get_current_system_state\<close> is read through \<^verbatim>\<open>client_a\<close>, and the cached value's
  entry is read when that state is not \<^verbatim>\<open>None\<close>. \<^verbatim>\<open>start_timer\<close> is reached when the
  method neither returned early nor raised.
\<close>

definition differs_from_cached ::
  "(int \<Rightarrow> string) \<Rightarrow> (real \<Rightarrow> string) \<Rightarrow> ('h \<Rightarrow> string)
     \<Rightarrow> RequestMessage \<Rightarrow> 'h cached option \<Rightarrow> error + bool" where
  "differs_from_cached str_int str_float str_hcd d c =
     (case c of
        None \<Rightarrow> Inr True
      | Some (ReplyString str) \<Rightarrow> Inl AttributeError
      | Some (ReplyObject r) \<Rightarrow>
          Inr (RequestMessage_to_string str_int str_float d
                 \<noteq> ReplyMessage_to_string str_int str_float str_hcd r))"

definition client_state_allows ::
  "'h VersionVectorEntry option \<Rightarrow> 'h cached option \<Rightarrow> error + bool" where
  "client_state_allows css c =
     (case css of
        None \<Rightarrow> Inr True
      | Some e \<Rightarrow>
          (case c of
             None \<Rightarrow> Inl AttributeError
           | Some (ReplyString str) \<Rightarrow> Inl AttributeError
           | Some (ReplyObject r) \<Rightarrow> Inr (vve_hcd e = entry_hcd (reply_entry r))))"

definition receive_request ::
  "(int \<Rightarrow> string) \<Rightarrow> (real \<Rightarrow> string) \<Rightarrow> ('h \<Rightarrow> string)
     \<Rightarrow> ('m, 'h) Replica \<Rightarrow> RequestMessage \<Rightarrow> ('m, 'h) outcome" where
  "receive_request str_int str_float str_hcd s d =
     (let client_a = find_client s (req_client_id d);
          c = reply_cache s (req_client_id d)
      in case differs_from_cached str_int str_float str_hcd d c of
           Inl e \<Rightarrow> (s, [], Some e)
         | Inr False \<Rightarrow> (s, [], None)
         | Inr True \<Rightarrow>
             if hcd s \<noteq> [] \<and> req_timestamp d < timestamp (last (hcd s)) then (s, [], None)
             else if hcd s \<noteq> [] \<and> req_timestamp d = timestamp (last (hcd s))
             then (case send_reply s (req_client_id d) c of
                     Inl e \<Rightarrow> (s, [], Some e)
                   | Inr dg \<Rightarrow> (start_timer s, [dg], None))
             else (case client_a of
                     None \<Rightarrow> (s, [], Some AttributeError)
                   | Some cl \<Rightarrow>
                       (case get_current_system_state (client_version_vector cl)
                               (fault_tolerance s) of
                          Inl e \<Rightarrow> (s, [], Some e)
                        | Inr css \<Rightarrow>
                            (case client_state_allows css c of
                               Inl e \<Rightarrow> (s, [], Some e)
                             | Inr False \<Rightarrow> (s, [], None)
                             | Inr True \<Rightarrow>
                                 (let s1 = s\<lparr>accepted_requests := accepted_requests s @ [d]\<rparr>
                                  in if is_primary s1
                                     then (let n = (if hcd s1 = [] then 0
                                                    else sequence_number (last (hcd s1)) + 1);
                                               pre_prepare_message =
                                                 \<lparr>pp_primary_replica_id = replica_id s1,
                                                  pp_view = view s1, pp_sequence_number = n,
                                                  pp_request_msg = d\<rparr>
                                           in (case multicast_message s1
                                                       (WPrePrepare pre_prepare_message) of
                                                 (sent, Some e) \<Rightarrow> (s1, sent, Some e)
                                               | (sent, None) \<Rightarrow> (start_timer s1, sent, None)))
                                     else (start_timer s1, [], None))))))"

text \<open>
  \<^verbatim>\<open>receive_view_change\<close>, up to the point where every run of it raises. The message is
  appended; the first disjunct of the test reads the replica's own entry with
  \<^verbatim>\<open>get_entry(self.get_replica_id(), self.get_replica_id())\<close>. When the first disjunct is
  true the body runs and evaluates \<^verbatim>\<open>data.get_version_vector_entry().get_replica()\<close>, a
  method that \<^verbatim>\<open>VersionVectorEntry\<close> does not have, before anything is sent. When it is
  false the second disjunct is evaluated and looks the vector up under the bound method
  \<^verbatim>\<open>self.get_replica_id\<close> (written without the call), which is no key of the dict. The
  rest of the method is never reached.
\<close>

definition receive_view_change ::
  "('m, 'h) Replica \<Rightarrow> 'h ViewChangeMessage \<Rightarrow> ('m, 'h) outcome" where
  "receive_view_change s d =
     (let s1 = s\<lparr>received_view_change_messages := received_view_change_messages s @ [d]\<rparr>
      in case get_entry (version_vector s1) (replica_id s1) (replica_id s1) of
           Inl e \<Rightarrow> (s1, [], Some e)
         | Inr own \<Rightarrow>
             if vve_view (vc_version_vector_entry d) < vve_view own
             then (s1, [], Some AttributeError)
             else (s1, [], Some KeyError))"

text \<open>
  The dominance test of the specification, written from its words: the message's last
  committed entry is strictly behind the receiver's under the lexicographic order on
  (view, sequence number).
\<close>

definition strictly_behind :: "'h VersionVectorEntry \<Rightarrow> 'h VersionVectorEntry \<Rightarrow> bool" where
  "strictly_behind theirs own =
     (vve_view theirs < vve_view own
      \<or> (vve_view theirs = vve_view own \<and> vve_sequence_number theirs < vve_sequence_number own))"

subsection \<open>client.py: handle\_reply\<close>

text \<open>
  \<^verbatim>\<open>Client.handle_reply\<close>. The reply is appended unless the same object is already held.
  For every pending request with the reply's timestamp the inner loop counts the held
  replies that agree with the reply on timestamp, client id and result and whose entry
  \<^verbatim>\<open>==\<close> the reply's entry, that is, is the same object. \<^verbatim>\<open>founded_request\<close> is the
  last pending request with the timestamp, and unbound when there is none;
  \<^verbatim>\<open>list.remove\<close> takes that object out. The version vector is then updated with the
  entry of every held reply. The method returns \<^verbatim>\<open>False\<close>, or falls off its end
  (\<^verbatim>\<open>None\<close>), or leaves through \<^verbatim>\<open>sys.exit()\<close> after printing that consensus is reached;
  its \<^verbatim>\<open>return True\<close> stands after the exit.
\<close>

fun remove_first :: "('a \<Rightarrow> bool) \<Rightarrow> 'a list \<Rightarrow> 'a list" where
  "remove_first P [] = []"
| "remove_first P (x # xs) = (if P x then xs else x # remove_first P xs)"

definition remove_last :: "('a \<Rightarrow> bool) \<Rightarrow> 'a list \<Rightarrow> 'a list" where
  "remove_last P xs = rev (remove_first P (rev xs))"

definition entries_match :: "nat \<times> 'h ReplyMessage \<Rightarrow> nat \<times> 'h ReplyMessage \<Rightarrow> bool" where
  "entries_match received_reply reply_message = (fst received_reply = fst reply_message)"

definition matching_replies :: "'h Client \<Rightarrow> nat \<times> 'h ReplyMessage \<Rightarrow> int" where
  "matching_replies c reply_message =
     int (length (filter (\<lambda>received_reply.
            reply_timestamp (snd received_reply) = reply_timestamp (snd reply_message)
            \<and> reply_client_id (snd received_reply) = reply_client_id (snd reply_message)
            \<and> reply_result (snd received_reply) = reply_result (snd reply_message)
            \<and> entries_match received_reply reply_message) (received_replies c)))"

definition reply_total :: "'h Client \<Rightarrow> nat \<times> 'h ReplyMessage \<Rightarrow> int" where
  "reply_total c reply_message =
     sum_list (map (\<lambda>pending_request.
                 if req_timestamp pending_request = reply_timestamp (snd reply_message)
                 then matching_replies c reply_message else 0) (pending_requests c))"

definition update_from_replies :: "'h Client \<Rightarrow> 'h VersionVector" where
  "update_from_replies c =
     foldl (\<lambda>vector received_reply.
              update_entry vector (client_id c)
                (entry_replica_id (reply_entry (snd received_reply)))
                (entry_view (reply_entry (snd received_reply)))
                (entry_sequence_number (reply_entry (snd received_reply)))
                (entry_hcd (reply_entry (snd received_reply))))
       (client_version_vector c) (received_replies c)"

definition handle_reply ::
  "'h Client \<Rightarrow> nat \<times> 'h ReplyMessage \<Rightarrow> 'h Client \<times> (error + bool option)" where
  "handle_reply c reply_message =
     (let c1 = (if fst reply_message \<notin> set (map fst (received_replies c))
                then c\<lparr>received_replies := received_replies c @ [reply_message]\<rparr> else c);
          same_time = (\<lambda>p. req_timestamp p = reply_timestamp (snd reply_message))
      in if reply_total c1 reply_message \<ge> (2 * client_f c1) + 1
         then (if filter same_time (pending_requests c1) = []
               then (c1, Inl UnboundLocalError)
               else (let c2 = c1\<lparr>pending_requests := remove_last same_time (pending_requests c1)\<rparr>;
                         c3 = c2\<lparr>client_version_vector := update_from_replies c2\<rparr>
                     in case get_current_system_state (client_version_vector c3) (client_f c3) of
                          Inl e \<Rightarrow> (c3, Inl e)
                        | Inr None \<Rightarrow> (c3, Inl AttributeError)
                        | Inr (Some e) \<Rightarrow>
                            if vve_hcd e = entry_hcd (reply_entry (snd reply_message))
                            then (c3, Inl SystemExit)
                            else (c3, Inr None)))
         else (c1, Inr (Some False)))"

text \<open>
  The matching relation of the specification, written from its words: two replies agree
  on timestamp, client id, result, view, sequence number and digest, and come from
  different replicas.
\<close>

definition spec_match :: "'h ReplyMessage \<Rightarrow> 'h ReplyMessage \<Rightarrow> bool" where
  "spec_match a b =
     (reply_timestamp a = reply_timestamp b \<and> reply_client_id a = reply_client_id b
      \<and> reply_result a = reply_result b
      \<and> entry_view (reply_entry a) = entry_view (reply_entry b)
      \<and> entry_sequence_number (reply_entry a) = entry_sequence_number (reply_entry b)
      \<and> entry_hcd (reply_entry a) = entry_hcd (reply_entry b)
      \<and> entry_replica_id (reply_entry a) \<noteq> entry_replica_id (reply_entry b))"


subsection \<open>Scenario states\<close>

text \<open>
  Concrete states for the worked examples: a replica as \<^const>\<open>Replica_init\<close> leaves it
  (on localhost, port 5000 plus its id, view 0), another replica as seen through
  \<^verbatim>\<open>self.replicas\<close>, a client with id 0 and a request of that client.
\<close>

definition scenario_replica ::
  "int \<Rightarrow> bool \<Rightarrow> int \<Rightarrow> peer list \<Rightarrow> string Client list \<Rightarrow> (string, string) Replica" where
  "scenario_replica rid prim f rs cs =
     \<lparr>host = ''localhost'', port = 5000 + rid, fault_tolerance = f, replica_id = rid,
      view = 0, reply_cache = (\<lambda>_. None), version_vector = [], hcd = [],
      hcd_ref = ''hcd'', clients = cs, replicas = rs, primary = prim,
      accepted_requests = [], received_pre_prepare_messages = [],
      received_prepare_messages = [], received_commit_messages = [],
      received_view_change_messages = [], pending_checkpoints = (\<lambda>_. None),
      timer = False\<rparr>"

definition scenario_peer :: "int \<Rightarrow> peer" where
  "scenario_peer rid =
     PeerRef \<lparr>peer_replica_id = rid, peer_host = ''localhost'', peer_port = 5000 + rid,
              peer_vv_is_empty = True\<rparr>"

definition scenario_client :: "int \<Rightarrow> RequestMessage list \<Rightarrow> string Client" where
  "scenario_client f pending =
     \<lparr>client_host = ''localhost'', client_port = 6000, client_id = 0,
      client_version_vector = [], client_f = f, received_replies = [],
      pending_requests = pending\<rparr>"

definition scenario_request :: "real \<Rightarrow> RequestMessage" where
  "scenario_request t =
     \<lparr>operation = ''x'', req_timestamp = t, req_client_id = 0, current_system_state = ''None''\<rparr>"


definition scenario_reply :: "int \<Rightarrow> string ReplyMessage" where
  "scenario_reply rid = ReplyMessage_init 0 1 (ResultStr ''True'') rid 0 0 ''h''"


section \<open>Hash chain\<close>

lemma add_block_snoc:
  "add_block H s chain d n now =
     chain @ [HashChainBlock_init H s d n now (if chain = [] then ''0'' else hash (last chain))]"
  by (simp add: add_block_def)

lemma linked_snoc:
  "linked (c @ [b]) = (linked c \<and> (c = [] \<or> previous_hash b = hash (last c)))"
  by (induction c rule: linked.induct) auto

lemma linked_Suc:
  "linked c \<Longrightarrow> Suc i < length c \<Longrightarrow> previous_hash (c ! Suc i) = hash (c ! i)"
proof (induction c arbitrary: i rule: linked.induct)
  case (3 a b bs)
  then show ?case by (cases i) auto
qed auto

lemma linked_nth:
  "linked c \<Longrightarrow> 0 < i \<Longrightarrow> i < length c \<Longrightarrow> previous_hash (c ! i) = hash (c ! (i - 1))"
  using linked_Suc [of c "i - 1"] by simp

lemma linked_add_block: "linked c \<Longrightarrow> linked (add_block H s c d n now)"
  by (simp add: add_block_snoc linked_snoc HashChainBlock_init_def)

lemma first_prev_zero_add_block:
  "first_prev_zero c \<Longrightarrow> first_prev_zero (add_block H s c d n now)"
  by (cases c) (simp_all add: add_block_snoc first_prev_zero_def HashChainBlock_init_def)

lemma linked_add_blocks: "linked c \<Longrightarrow> linked (add_blocks H s c calls)"
  by (induction calls arbitrary: c) (auto simp: linked_add_block)

lemma first_prev_zero_add_blocks:
  "first_prev_zero c \<Longrightarrow> first_prev_zero (add_blocks H s c calls)"
  by (induction calls arbitrary: c) (auto simp: first_prev_zero_add_block)

lemma sequence_numbers_add_blocks:
  "map sequence_number (add_blocks H s c calls) =
     map sequence_number c @ map (\<lambda>(d, n, now). n) calls"
  by (induction calls arbitrary: c) (auto simp: add_block_snoc HashChainBlock_init_def)

lemma length_add_blocks: "length (add_blocks H s c calls) = length c + length calls"
  by (induction calls arbitrary: c) (auto simp: add_block_snoc)

text \<open>
  Claim C2, as the code has it. The stored hash of an appended block is the digest of
  \<^verbatim>\<open>str(data) + str(previous_hash)\<close> only: the sequence number is not part of the
  preimage, so the same data appended at the same place under two different sequence
  numbers gets the same hash.
\<close>

theorem add_block_hash_preimage:
  "hash (last (add_block H s chain d n now)) =
     H (s d @ (if chain = [] then ''0'' else hash (last chain)))
   \<and> hash (last (add_block H s chain d n now)) = hash (last (add_block H s chain d n' now'))"
  by (simp add: add_block_snoc HashChainBlock_init_def calculate_hash_def)

text \<open>
  Claim C2 as stated fails: for every digest function the blocks for sequence numbers 1
  and 2 carry one and the same hash, and with a collision-free digest (the identity
  stands in for it) the stored hash differs from the digest of the preimage that starts
  with the sequence number.
\<close>

theorem add_block_hash_preimage_counterexample:
  "(\<forall>H. hash (last (add_block H (\<lambda>d. d) [] ''x'' 1 0)) = hash (last (add_block H (\<lambda>d. d) [] ''x'' 2 0)))
   \<and> hash (last (add_block (\<lambda>p. p) (\<lambda>d. d) [] ''x'' 1 0))
       \<noteq> spec_hash (\<lambda>p. p) (\<lambda>n. ''1'') (\<lambda>d. d) 1 ''x'' ''0''"
  by (simp add: add_block_snoc HashChainBlock_init_def calculate_hash_def spec_hash_def)

text \<open>
  Claim C3, as the code has it. \<^verbatim>\<open>add_block\<close> has no check of the sequence number and
  no failure: for every sequence number it appends exactly one block, carrying the given
  data and sequence number, and leaves the earlier blocks as they were.
\<close>

theorem add_block_always_appends:
  "length (add_block H s chain d n now) = length chain + 1
   \<and> butlast (add_block H s chain d n now) = chain
   \<and> data (last (add_block H s chain d n now)) = d
   \<and> sequence_number (last (add_block H s chain d n now)) = n"
  by (simp add: add_block_snoc HashChainBlock_init_def)

text \<open>
  Claim C3 as stated fails: on the empty chain the sequence number 1 differs from the
  chain length 0, the specification's append reports a gap there, and \<^verbatim>\<open>add_block\<close>
  changes the chain.
\<close>

theorem add_block_sequence_gap_counterexample:
  "(1::int) \<noteq> int (length ([] :: string HashChainDigest))
   \<and> spec_append (\<lambda>p. p) (\<lambda>d. d) [] ''x'' 1 0 = Inl SequenceGap
   \<and> add_block (\<lambda>p. p) (\<lambda>d. d) [] ''x'' 1 0 \<noteq> []"
  by (simp add: add_block_snoc spec_append_def)

text \<open>
  Claim C4, as the code has it. In every chain built from the empty chain by
  \<^verbatim>\<open>add_block\<close> calls, block 0 has the previous hash \<^verbatim>\<open>"0"\<close>, every later block has
  the hash of its predecessor as previous hash, and the stored sequence numbers are the
  ones the callers passed, in call order (so they are contiguous exactly when the callers'
  numbers are).
\<close>

theorem hash_chain_invariant:
  "(calls \<noteq> [] \<longrightarrow> previous_hash (add_blocks H s [] calls ! 0) = ''0'')
   \<and> (\<forall>i. 0 < i \<and> i < length (add_blocks H s [] calls) \<longrightarrow>
          previous_hash (add_blocks H s [] calls ! i) = hash (add_blocks H s [] calls ! (i - 1)))
   \<and> map sequence_number (add_blocks H s [] calls) = map (\<lambda>(d, n, now). n) calls"
proof -
  let ?chain = "add_blocks H s [] calls"
  have l: "linked ?chain" by (rule linked_add_blocks) simp
  have f: "first_prev_zero ?chain"
    by (rule first_prev_zero_add_blocks) (simp add: first_prev_zero_def)
  have len: "length ?chain = length calls" by (simp add: length_add_blocks)
  have "calls \<noteq> [] \<longrightarrow> previous_hash (?chain ! 0) = ''0''"
    using f len by (cases ?chain) (auto simp: first_prev_zero_def)
  moreover have "\<forall>i. 0 < i \<and> i < length ?chain \<longrightarrow>
      previous_hash (?chain ! i) = hash (?chain ! (i - 1))"
    using l linked_nth by blast
  moreover have "map sequence_number ?chain = map (\<lambda>(d, n, now). n) calls"
    by (simp add: sequence_numbers_add_blocks)
  ultimately show ?thesis by blast
qed

theorem hash_chain_invariant_witness:
  "previous_hash (add_blocks (\<lambda>p. p) (\<lambda>d. d) [] [(''a'', 1, 0), (''b'', 2, 0)] ! 0) = ''0''
   \<and> previous_hash (add_blocks (\<lambda>p. p) (\<lambda>d. d) [] [(''a'', 1, 0), (''b'', 2, 0)] ! 1)
       = hash (add_blocks (\<lambda>p. p) (\<lambda>d. d) [] [(''a'', 1, 0), (''b'', 2, 0)] ! 0)
   \<and> map sequence_number (add_blocks (\<lambda>p. p) (\<lambda>d. d) [] [(''a'', 1, 0), (''b'', 2, 0)]) = [1, 2]"
proof -
  let ?calls = "[(''a'', 1, 0), (''b'', 2, 0)] :: (string \<times> int \<times> real) list"
  let ?c = "add_blocks (\<lambda>p. p) (\<lambda>d. d) [] ?calls"
  note h = hash_chain_invariant [of ?calls "\<lambda>p. p" "\<lambda>d. d"]
  have len: "0 < (1::nat) \<and> (1::nat) < length ?c" by (simp add: add_block_snoc)
  from h have a: "previous_hash (?c ! 0) = ''0''" by simp
  from h len have b: "previous_hash (?c ! 1) = hash (?c ! (1 - 1))" by blast
  from h have c: "map sequence_number ?c = [1, 2]" by simp
  from a b c show ?thesis by simp
qed

text \<open>
  Claim C4 as stated fails in its last clause: two calls with the sequence numbers 1 and
  5 leave a chain whose stored sequence numbers are not contiguous.
\<close>

theorem hash_chain_contiguous_counterexample:
  "map sequence_number (add_blocks (\<lambda>p. p) (\<lambda>d. d) [] [(''a'', 1, 0), (''b'', 5, 0)]) = [1, 5]
   \<and> \<not> contiguous (add_blocks (\<lambda>p. p) (\<lambda>d. d) [] [(''a'', 1, 0), (''b'', 5, 0)])"
  by (simp add: add_block_snoc HashChainBlock_init_def)


section \<open>Version vector\<close>

lemma first_seen_snoc:
  "first_seen (xs @ [x]) = (if x \<in> set xs then first_seen xs else first_seen xs @ [x])"
  by (simp add: first_seen_def)

lemma set_first_seen: "set (first_seen xs) = set xs"
  by (simp add: first_seen_def)

lemma distinct_first_seen: "distinct (first_seen xs)"
  by (simp add: first_seen_def)

lemma foldl_nested:
  "foldl (\<lambda>c xs. foldl g c xs) c xss = foldl g c (concat xss)"
  by (induction xss arbitrary: c) auto

lemma build_counter_flat: "build_counter vector = flat_counter (all_entries vector)"
  by (simp add: build_counter_def flat_counter_def all_entries_def foldl_nested)

lemma flat_counter_groups:
  "flat_counter es =
     map (\<lambda>k. (k, filter (\<lambda>e. counter_key e = k) es)) (first_seen (map counter_key es))"
proof (induction es rule: rev_induct)
  case Nil
  show ?case by (simp add: flat_counter_def first_seen_def)
next
  case (snoc e es)
  have step: "flat_counter (es @ [e]) = dict_append (counter_key e) e (flat_counter es)"
    by (simp add: flat_counter_def)
  show ?case
  proof (cases "counter_key e \<in> set (map counter_key es)")
    case True
    then show ?thesis
      unfolding step snoc.IH
      by (auto simp: dict_append_def first_seen_snoc set_first_seen comp_def)
  next
    case False
    then have "filter (\<lambda>x. counter_key x = counter_key e) es = []"
      by (auto simp: filter_empty_conv) (metis imageI)
    with False show ?thesis
      unfolding step snoc.IH
      by (auto simp: dict_append_def first_seen_snoc set_first_seen comp_def)
  qed
qed

lemma build_counter_groups:
  "build_counter vector = map (\<lambda>k. (k, group_of vector k)) (key_order vector)"
  by (simp add: build_counter_flat flat_counter_groups group_of_def key_order_def)

lemma min_by_replica_id_mem: "min_by_replica_id b es \<in> set (b # es)"
  by (induction es arbitrary: b) auto

lemma min_by_replica_id_le_best:
  "vve_replica_id (min_by_replica_id b es) \<le> vve_replica_id b"
proof (induction es arbitrary: b)
  case (Cons e es)
  show ?case using Cons [of e] Cons [of b] by auto
qed simp

lemma min_by_replica_id_le:
  "x \<in> set (b # es) \<Longrightarrow> vve_replica_id (min_by_replica_id b es) \<le> vve_replica_id x"
proof (induction es arbitrary: b)
  case Nil
  then show ?case by simp
next
  case (Cons e es)
  show ?case
  proof (cases "x \<in> set es")
    case True
    then show ?thesis using Cons.IH by simp
  next
    case False
    with Cons.prems have "x = b \<or> x = e" by auto
    then show ?thesis
      using min_by_replica_id_le_best [of e es] min_by_replica_id_le_best [of b es]
      by auto
  qed
qed


lemma scan_counter_None:
  "scan_counter f (map (\<lambda>k. (k, G k)) ks) = Inr None
     \<longleftrightarrow> (\<forall>k \<in> set ks. int (length (G k)) < 2 * f + 1)"
  by (induction ks) (auto split: list.splits)

lemma scan_counter_no_error:
  "\<forall>k \<in> set ks. G k \<noteq> [] \<Longrightarrow> scan_counter f (map (\<lambda>k. (k, G k)) ks) \<noteq> Inl err"
  by (induction ks) (auto split: list.splits)

lemma scan_counter_Some:
  "scan_counter f (map (\<lambda>k. (k, G k)) ks) = Inr (Some e) \<Longrightarrow>
     \<exists>before k after b es. ks = before @ k # after
       \<and> (\<forall>k' \<in> set before. int (length (G k')) < 2 * f + 1)
       \<and> 2 * f + 1 \<le> int (length (G k)) \<and> G k = b # es \<and> e = min_by_replica_id b es"
proof (induction ks)
  case Nil
  then show ?case by simp
next
  case (Cons k ks)
  show ?case
  proof (cases "2 * f + 1 \<le> int (length (G k))")
    case True
    with Cons.prems obtain b es where "G k = b # es" "e = min_by_replica_id b es"
      by (auto split: list.splits)
    with True have "k # ks = [] @ k # ks \<and> (\<forall>k' \<in> set []. int (length (G k')) < 2 * f + 1)
       \<and> 2 * f + 1 \<le> int (length (G k)) \<and> G k = b # es \<and> e = min_by_replica_id b es"
      by simp
    then show ?thesis by blast
  next
    case False
    with Cons.prems have "scan_counter f (map (\<lambda>k. (k, G k)) ks) = Inr (Some e)" by simp
    from Cons.IH [OF this] obtain before k' after b es where
      h: "ks = before @ k' # after" "\<forall>k'' \<in> set before. int (length (G k'')) < 2 * f + 1"
         "2 * f + 1 \<le> int (length (G k'))" "G k' = b # es" "e = min_by_replica_id b es"
      by blast
    with False have "k # ks = (k # before) @ k' # after
       \<and> (\<forall>k'' \<in> set (k # before). int (length (G k'')) < 2 * f + 1)
       \<and> 2 * f + 1 \<le> int (length (G k')) \<and> G k' = b # es \<and> e = min_by_replica_id b es"
      by simp
    then show ?thesis by blast
  qed
qed

lemma set_key_order: "set (key_order vector) = counter_key ` set (all_entries vector)"
  by (simp add: key_order_def set_first_seen)

lemma group_of_nonempty: "k \<in> set (key_order vector) \<Longrightarrow> group_of vector k \<noteq> []"
  by (auto simp: set_key_order group_of_def filter_empty_conv)

lemma group_of_mem:
  "e \<in> set (group_of vector k) \<longleftrightarrow> e \<in> set (all_entries vector) \<and> counter_key e = k"
  by (auto simp: group_of_def)

text \<open>
  Claim C5, as the code has it. \<^verbatim>\<open>get_current_system_state\<close> never raises. It counts
  every entry of every principal's list (not only the latest, and with multiplicity, not
  per distinct principal). It returns \<^verbatim>\<open>None\<close> exactly when no (sequence number, digest)
  pair is carried by at least \<open>2f + 1\<close> entries. Otherwise it returns an entry of the
  first pair, in order of first appearance, that is carried by at least \<open>2f + 1\<close> entries,
  and that entry has the lowest replica id among the entries of its pair.
\<close>

theorem get_current_system_state_counts_all_entries:
  "(get_current_system_state vector f = Inr None \<longleftrightarrow>
      (\<forall>e \<in> set (all_entries vector). int (length (group_of vector (counter_key e))) < 2 * f + 1))
   \<and> (\<forall>e. get_current_system_state vector f = Inr (Some e) \<longrightarrow>
        e \<in> set (all_entries vector)
        \<and> 2 * f + 1 \<le> int (length (group_of vector (counter_key e)))
        \<and> (\<forall>e' \<in> set (group_of vector (counter_key e)). vve_replica_id e \<le> vve_replica_id e')
        \<and> (\<exists>before after. key_order vector = before @ counter_key e # after
              \<and> (\<forall>k \<in> set before. int (length (group_of vector k)) < 2 * f + 1)))
   \<and> (\<forall>err. get_current_system_state vector f \<noteq> Inl err)"
proof (intro conjI allI impI)
  show "get_current_system_state vector f = Inr None \<longleftrightarrow>
      (\<forall>e \<in> set (all_entries vector). int (length (group_of vector (counter_key e))) < 2 * f + 1)"
    by (simp add: get_current_system_state_def build_counter_groups scan_counter_None set_key_order)
next
  fix err
  show "get_current_system_state vector f \<noteq> Inl err"
    unfolding get_current_system_state_def build_counter_groups
    by (rule scan_counter_no_error) (simp add: group_of_nonempty)
next
  fix e
  assume "get_current_system_state vector f = Inr (Some e)"
  then have "scan_counter f (map (\<lambda>k. (k, group_of vector k)) (key_order vector)) = Inr (Some e)"
    by (simp add: get_current_system_state_def build_counter_groups)
  from scan_counter_Some [OF this] obtain before k after b es where
    h: "key_order vector = before @ k # after"
       "\<forall>k' \<in> set before. int (length (group_of vector k')) < 2 * f + 1"
       "2 * f + 1 \<le> int (length (group_of vector k))"
       "group_of vector k = b # es" "e = min_by_replica_id b es"
    by blast
  have mem: "e \<in> set (group_of vector k)"
    using h(4,5) min_by_replica_id_mem [of b es] by simp
  then have key: "counter_key e = k" and ent: "e \<in> set (all_entries vector)"
    by (simp_all add: group_of_mem)
  show "e \<in> set (all_entries vector)" by (rule ent)
  show "2 * f + 1 \<le> int (length (group_of vector (counter_key e)))"
    using h(3) key by simp
  show "\<forall>e' \<in> set (group_of vector (counter_key e)). vve_replica_id e \<le> vve_replica_id e'"
    using h(4,5) key min_by_replica_id_le [of _ b es] by simp
  show "\<exists>before after. key_order vector = before @ counter_key e # after
              \<and> (\<forall>k \<in> set before. int (length (group_of vector k)) < 2 * f + 1)"
    using h(1,2) key by blast
qed

theorem get_current_system_state_counts_all_entries_witness:
  "get_current_system_state
     (update_entry (update_entry (update_entry [] 1 1 2 2 ''h'') 2 2 2 2 ''h'') 3 3 2 2 ''h'') 1
     = Inr (Some (VersionVectorEntry_init 1 2 2 ''h''))
   \<and> VersionVectorEntry_init 1 2 2 ''h'' \<in> set (all_entries
        (update_entry (update_entry (update_entry [] 1 1 2 2 ''h'') 2 2 2 2 ''h'') 3 3 2 2 ''h''))
   \<and> 2 * 1 + 1 \<le> int (length (group_of
        (update_entry (update_entry (update_entry [] 1 1 2 2 ''h'') 2 2 2 2 ''h'') 3 3 2 2 ''h'')
        (counter_key (VersionVectorEntry_init 1 2 2 ''h''))))"
proof -
  let ?v = "update_entry (update_entry (update_entry [] 1 1 2 2 ''h'') 2 2 2 2 ''h'') 3 3 2 2 ''h''"
  let ?e = "VersionVectorEntry_init 1 2 2 ''h''"
  have val: "get_current_system_state ?v 1 = Inr (Some ?e)"
    by (simp add: get_current_system_state_def build_counter_def update_entry_def
        dict_append_def VersionVectorEntry_init_def counter_key_def)
  from get_current_system_state_counts_all_entries [of ?v 1] val
  have "?e \<in> set (all_entries ?v)
        \<and> 2 * 1 + 1 \<le> int (length (group_of ?v (counter_key ?e)))"
    by blast
  with val show ?thesis by blast
qed

text \<open>
  Claim C5 as stated fails: a vector with a single principal whose list holds the same
  entry three times (what a client's vector looks like after three replies) has no pair
  in the latest entry of three distinct principals, and for \<open>f = 1\<close> the method returns
  the entry, not \<^verbatim>\<open>None\<close>.
\<close>

theorem get_current_system_state_counterexample:
  "get_current_system_state
     (update_entry (update_entry (update_entry [] 0 7 0 1 ''d'') 0 7 0 1 ''d'') 0 7 0 1 ''d'') 1
     = Inr (Some (VersionVectorEntry_init 7 0 1 ''d''))
   \<and> (\<forall>k. int (length (latest_holders
        (update_entry (update_entry (update_entry [] 0 7 0 1 ''d'') 0 7 0 1 ''d'') 0 7 0 1 ''d'') k))
        < 2 * 1 + 1)"
  by (simp add: get_current_system_state_def build_counter_def update_entry_def
      dict_append_def VersionVectorEntry_init_def counter_key_def latest_holders_def)




section \<open>Replica\<close>

text \<open>
  Claim C1, as the code has it. The constructor takes the replica id from the class
  counter and sets the primary flag from the view it is given and from \<open>f\<close> alone: the
  replica is primary exactly when \<open>view mod 3(f + 1)\<close> is its id. The number of replicas
  does not enter.
\<close>

theorem replica_primary_flag:
  "0 \<le> f \<Longrightarrow>
     \<exists>r. Replica_init idc nh h p f v cs rs = Inr (r, idc + 1)
       \<and> replica_id r = int idc
       \<and> (is_primary r \<longleftrightarrow> v mod (3 * (f + 1)) = replica_id r)"
  by (simp add: Replica_init_def is_primary_def)

theorem replica_primary_flag_witness:
  "(0::int) \<le> 1
   \<and> (\<exists>r :: (string, string) Replica.
         Replica_init 0 ''hcd'' ''localhost'' 5000 1 6 [] [] = Inr (r, 0 + 1)
       \<and> replica_id r = int 0
       \<and> is_primary r \<and> (6::int) mod (3 * (1 + 1)) = replica_id r)"
proof -
  have h: "(0::int) \<le> 1" by simp
  from replica_primary_flag [OF h, of 0 "''hcd''" "''localhost''" 5000 6 "[]" "[]"]
  obtain r :: "(string, string) Replica" where
    r: "Replica_init 0 ''hcd'' ''localhost'' 5000 1 6 [] [] = Inr (r, 0 + 1)"
       "replica_id r = int 0"
       "is_primary r \<longleftrightarrow> (6::int) mod (3 * (1 + 1)) = replica_id r"
    by blast
  from r(2,3) have "is_primary r" "(6::int) mod (3 * (1 + 1)) = replica_id r" by simp_all
  with r h show ?thesis by blast
qed

text \<open>
  Claim C1 as stated fails: with \<open>f = 1\<close> in a system of \<open>N = 3f + 1 = 4\<close> replicas,
  replica 0 constructed in view 4 has \<open>4 mod 4\<close> equal to its id and is not primary.
\<close>

theorem replica_primary_flag_counterexample:
  "\<exists>r :: (string, string) Replica.
      Replica_init 0 ''hcd'' ''localhost'' 5000 1 4 [] [] = Inr (r, 1)
    \<and> (4::int) mod 4 = replica_id r \<and> \<not> is_primary r"
  by (simp add: Replica_init_def is_primary_def)

lemma peer_id_cong: "replica_id s = replica_id s' \<Longrightarrow> peer_id s r = peer_id s' r"
  by (cases r) simp_all

lemma peer_address_cong:
  "host s = host s' \<Longrightarrow> port s = port s' \<Longrightarrow> peer_address s r = peer_address s' r"
  by (cases r) simp_all

lemma find_replica_in_cong:
  "replica_id s = replica_id s' \<Longrightarrow> find_replica_in s rs rid = find_replica_in s' rs rid"
  by (induction rs) (simp_all add: peer_id_cong [of s s'] split: sum.splits)

lemma multicast_to_cong:
  "host s = host s' \<Longrightarrow> port s = port s' \<Longrightarrow> multicast_to s rs w = multicast_to s' rs w"
  by (induction rs) (simp_all add: peer_address_cong [of s s'] split: sum.splits prod.splits)

lemma note_sender_primary:
  "note_sender (s\<lparr>primary := b\<rparr>) rid =
     (case note_sender s rid of Inl e \<Rightarrow> Inl e | Inr s1 \<Rightarrow> Inr (s1\<lparr>primary := b\<rparr>))"
proof -
  have "find_replica_in (s\<lparr>primary := b\<rparr>) (replicas s) rid = find_replica_in s (replicas s) rid"
    by (rule find_replica_in_cong) simp
  then show ?thesis
    by (simp add: note_sender_def find_replica_def add_replica_def split: sum.splits)
qed

lemma receive_pre_prepare_flag_independent:
  "receive_pre_prepare (s\<lparr>primary := b\<rparr>) d =
     (case receive_pre_prepare s d of (s', sent, err) \<Rightarrow> (s'\<lparr>primary := b\<rparr>, sent, err))"
proof (cases "note_sender s (pp_primary_replica_id d)")
  case (Inl e)
  then show ?thesis by (simp add: receive_pre_prepare_def note_sender_primary)
next
  case (Inr s1)
  then have n: "note_sender (s\<lparr>primary := b\<rparr>) (pp_primary_replica_id d) = Inr (s1\<lparr>primary := b\<rparr>)"
    by (simp add: note_sender_primary)
  have m: "multicast_to (s1\<lparr>primary := b, received_pre_prepare_messages := ms\<rparr>) rs w
         = multicast_to (s1\<lparr>received_pre_prepare_messages := ms\<rparr>) rs w" for ms rs w
    by (rule multicast_to_cong) simp_all
  show ?thesis
  proof (cases "received_pre_prepare_messages s1 = []")
    case True
    then show ?thesis unfolding receive_pre_prepare_def n Inr
      by (simp add: multicast_message_def Let_def m split: prod.splits)
  next
    case False
    then show ?thesis unfolding receive_pre_prepare_def n Inr
      by (auto simp: multicast_message_def Let_def m split: prod.splits)
  qed
qed


lemma find_replica_in_listed:
  "NotFoundStr \<notin> set rs \<Longrightarrow> Inr rid \<in> set (map (peer_id s) rs) \<Longrightarrow>
     \<exists>r \<in> set rs. find_replica_in s rs rid = Inr r"
proof (induction rs)
  case Nil
  then show ?case by simp
next
  case (Cons r rs)
  then show ?case by (cases r) auto
qed

lemma note_sender_listed:
  "NotFoundStr \<notin> set (replicas s) \<Longrightarrow> Inr rid \<in> set (map (peer_id s) (replicas s)) \<Longrightarrow>
     note_sender s rid = Inr s"
  using find_replica_in_listed [of "replicas s" rid s]
  by (auto simp: note_sender_def find_replica_def)

lemma multicast_to_all:
  "NotFoundStr \<notin> set rs \<Longrightarrow>
     \<exists>sent. multicast_to s rs w = (sent, None)
       \<and> map (\<lambda>dg. Inr (fst dg, fst (snd dg))) sent = map (peer_address s) rs
       \<and> map (\<lambda>dg. snd (snd dg)) sent = replicate (length rs) w"
proof (induction rs)
  case Nil
  then show ?case by simp
next
  case (Cons r rs)
  then obtain sent where
    "multicast_to s rs w = (sent, None)"
    "map (\<lambda>dg. Inr (fst dg, fst (snd dg))) sent = map (peer_address s) rs"
    "map (\<lambda>dg. snd (snd dg)) sent = replicate (length rs) w"
    by auto
  with Cons.prems show ?case by (cases r) auto
qed

lemma receive_pre_prepare_accepts:
  assumes listed: "NotFoundStr \<notin> set (replicas s)"
    and sender: "Inr (pp_primary_replica_id d) \<in> set (map (peer_id s) (replicas s))"
    and agree: "\<forall>r \<in> set (received_pre_prepare_messages s).
                  pp_sequence_number r = pp_sequence_number d \<longrightarrow> pp_request_msg r = pp_request_msg d"
    and window: "hcd s = [] \<or> (pp_sequence_number d \<le> sequence_number (last (hcd s)) + 2
                   \<and> sequence_number (last (hcd s)) - 2 \<le> pp_sequence_number d)"
  shows "\<exists>sent. receive_pre_prepare s d =
            (s\<lparr>received_pre_prepare_messages :=
                 (if received_pre_prepare_messages s = [] then [d, d]
                  else received_pre_prepare_messages s @ [d])\<rparr>, sent, None)
          \<and> map (\<lambda>dg. Inr (fst dg, fst (snd dg))) sent = map (peer_address s) (replicas s)
          \<and> map (\<lambda>dg. snd (snd dg)) sent =
              replicate (length (replicas s))
                (WPrepare \<lparr>p_replica_id = replica_id s, p_view = view s,
                           p_sequence_number = pp_sequence_number d,
                           p_request_msg = pp_request_msg d\<rparr>)"
proof -
  let ?w = "WPrepare \<lparr>p_replica_id = replica_id s, p_view = view s,
                       p_sequence_number = pp_sequence_number d,
                       p_request_msg = pp_request_msg d\<rparr> :: ('a, 'b) wire"
  have n: "note_sender s (pp_primary_replica_id d) = Inr s"
    using listed sender by (rule note_sender_listed)
  from multicast_to_all [OF listed, of s ?w] obtain sent where
    m: "multicast_to s (replicas s) ?w = (sent, None)"
       "map (\<lambda>dg. Inr (fst dg, fst (snd dg))) sent = map (peer_address s) (replicas s)"
       "map (\<lambda>dg. snd (snd dg)) sent = replicate (length (replicas s)) ?w"
    by blast
  have c: "multicast_to (s\<lparr>received_pre_prepare_messages := ms\<rparr>) rs w = multicast_to s rs w"
    for ms rs and w :: "('a, 'b) wire"
    by (rule multicast_to_cong) simp_all
  have nc: "(\<exists>r \<in> set (received_pre_prepare_messages s).
              pp_sequence_number r = pp_sequence_number d \<and> pp_request_msg r \<noteq> pp_request_msg d)
            = False"
    using agree by blast
  have nw: "(hcd s \<noteq> [] \<and> (sequence_number (last (hcd s)) + 2 < pp_sequence_number d
              \<or> pp_sequence_number d < sequence_number (last (hcd s)) - 2)) = False"
    using window by auto
  have "receive_pre_prepare s d =
            (s\<lparr>received_pre_prepare_messages :=
                 (if received_pre_prepare_messages s = [] then [d, d]
                  else received_pre_prepare_messages s @ [d])\<rparr>, sent, None)"
  proof (cases "received_pre_prepare_messages s = []")
    case True
    show ?thesis unfolding receive_pre_prepare_def n
      by (simp add: True multicast_message_def Let_def c m(1) nw)
  next
    case False
    show ?thesis unfolding receive_pre_prepare_def n
      by (simp add: False multicast_message_def Let_def c m(1) nw nc)
  qed
  with m(2,3) show ?thesis by blast
qed

text \<open>
  Claim C7, as the code has it. \<^verbatim>\<open>receive_pre_prepare\<close> does not read the primary
  flag: a primary and a backup in otherwise equal states send the same datagrams and end
  in states that differ in the flag only. And every replica, the primary as well as a
  backup, that accepts a pre-prepare sends a PREPARE to every replica in its list. It
  accepts when its list holds replicas only and the sender among them, no recorded
  pre-prepare has the same sequence number with another request, and the hash chain is
  empty or the sequence number is at most two away from the last block's; the PREPARE
  carries the replica's own id and view and the pre-prepare's sequence number and request.
\<close>

theorem receive_pre_prepare_primary_and_backup_alike:
  "receive_pre_prepare (s\<lparr>primary := b\<rparr>) d =
     (case receive_pre_prepare s d of (s', sent, err) \<Rightarrow> (s'\<lparr>primary := b\<rparr>, sent, err))
   \<and> (NotFoundStr \<notin> set (replicas s)
        \<and> Inr (pp_primary_replica_id d) \<in> set (map (peer_id s) (replicas s))
        \<and> (\<forall>r \<in> set (received_pre_prepare_messages s).
               pp_sequence_number r = pp_sequence_number d \<longrightarrow> pp_request_msg r = pp_request_msg d)
        \<and> (hcd s = [] \<or> (pp_sequence_number d \<le> sequence_number (last (hcd s)) + 2
                            \<and> sequence_number (last (hcd s)) - 2 \<le> pp_sequence_number d))
      \<longrightarrow> (\<exists>sent. receive_pre_prepare s d =
                     (s\<lparr>received_pre_prepare_messages :=
                          (if received_pre_prepare_messages s = [] then [d, d]
                           else received_pre_prepare_messages s @ [d])\<rparr>, sent, None)
                 \<and> map (\<lambda>dg. Inr (fst dg, fst (snd dg))) sent = map (peer_address s) (replicas s)
                 \<and> map (\<lambda>dg. snd (snd dg)) sent =
                     replicate (length (replicas s))
                       (WPrepare \<lparr>p_replica_id = replica_id s, p_view = view s,
                                  p_sequence_number = pp_sequence_number d,
                                  p_request_msg = pp_request_msg d\<rparr>)))"
proof (intro conjI impI)
  show "receive_pre_prepare (s\<lparr>primary := b\<rparr>) d =
     (case receive_pre_prepare s d of (s', sent, err) \<Rightarrow> (s'\<lparr>primary := b\<rparr>, sent, err))"
    by (rule receive_pre_prepare_flag_independent)
next
  assume a: "NotFoundStr \<notin> set (replicas s)
        \<and> Inr (pp_primary_replica_id d) \<in> set (map (peer_id s) (replicas s))
        \<and> (\<forall>r \<in> set (received_pre_prepare_messages s).
               pp_sequence_number r = pp_sequence_number d \<longrightarrow> pp_request_msg r = pp_request_msg d)
        \<and> (hcd s = [] \<or> (pp_sequence_number d \<le> sequence_number (last (hcd s)) + 2
                            \<and> sequence_number (last (hcd s)) - 2 \<le> pp_sequence_number d))"
  from a have 1: "NotFoundStr \<notin> set (replicas s)" by (rule conjunct1)
  from a have 2: "Inr (pp_primary_replica_id d) \<in> set (map (peer_id s) (replicas s))"
    by (elim conjE)
  from a have 3: "\<forall>r \<in> set (received_pre_prepare_messages s).
               pp_sequence_number r = pp_sequence_number d \<longrightarrow> pp_request_msg r = pp_request_msg d"
    by (elim conjE)
  from a have 4: "hcd s = [] \<or> (pp_sequence_number d \<le> sequence_number (last (hcd s)) + 2
                            \<and> sequence_number (last (hcd s)) - 2 \<le> pp_sequence_number d)"
    by (elim conjE)
  show "\<exists>sent. receive_pre_prepare s d =
                     (s\<lparr>received_pre_prepare_messages :=
                          (if received_pre_prepare_messages s = [] then [d, d]
                           else received_pre_prepare_messages s @ [d])\<rparr>, sent, None)
                 \<and> map (\<lambda>dg. Inr (fst dg, fst (snd dg))) sent = map (peer_address s) (replicas s)
                 \<and> map (\<lambda>dg. snd (snd dg)) sent =
                     replicate (length (replicas s))
                       (WPrepare \<lparr>p_replica_id = replica_id s, p_view = view s,
                                  p_sequence_number = pp_sequence_number d,
                                  p_request_msg = pp_request_msg d\<rparr>)"
    by (rule receive_pre_prepare_accepts [OF 1 2 3 4])
qed

theorem receive_pre_prepare_primary_and_backup_alike_witness:
  "is_primary (scenario_replica 0 True 1 [SelfRef, scenario_peer 1] [])
   \<and> NotFoundStr \<notin> set (replicas (scenario_replica 0 True 1 [SelfRef, scenario_peer 1] []))
   \<and> Inr 0 \<in> set (map (peer_id (scenario_replica 0 True 1 [SelfRef, scenario_peer 1] []))
                     (replicas (scenario_replica 0 True 1 [SelfRef, scenario_peer 1] [])))
   \<and> received_pre_prepare_messages (scenario_replica 0 True 1 [SelfRef, scenario_peer 1] []) = []
   \<and> hcd (scenario_replica 0 True 1 [SelfRef, scenario_peer 1] []) = []
   \<and> (\<exists>sent. receive_pre_prepare (scenario_replica 0 True 1 [SelfRef, scenario_peer 1] [])
          \<lparr>pp_primary_replica_id = 0, pp_view = 0, pp_sequence_number = 3, pp_request_msg = ''x''\<rparr>
        = ((scenario_replica 0 True 1 [SelfRef, scenario_peer 1] [])
             \<lparr>received_pre_prepare_messages :=
                [\<lparr>pp_primary_replica_id = 0, pp_view = 0, pp_sequence_number = 3, pp_request_msg = ''x''\<rparr>,
                 \<lparr>pp_primary_replica_id = 0, pp_view = 0, pp_sequence_number = 3, pp_request_msg = ''x''\<rparr>]\<rparr>,
           sent, None)
      \<and> map (\<lambda>dg. snd (snd dg)) sent =
          [WPrepare \<lparr>p_replica_id = 0, p_view = 0, p_sequence_number = 3, p_request_msg = ''x''\<rparr>,
           WPrepare \<lparr>p_replica_id = 0, p_view = 0, p_sequence_number = 3, p_request_msg = ''x''\<rparr>])"
proof -
  define s where "s = scenario_replica 0 True 1 [SelfRef, scenario_peer 1] []"
  define d :: "string PrePrepareMessage" where
    "d = \<lparr>pp_primary_replica_id = 0, pp_view = 0, pp_sequence_number = 3, pp_request_msg = ''x''\<rparr>"
  have p: "is_primary s" by (simp add: s_def scenario_replica_def is_primary_def)
  have reps: "replicas s = [SelfRef, scenario_peer 1]" by (simp add: s_def scenario_replica_def)
  have rid: "replica_id s = 0" and v: "view s = 0" by (simp_all add: s_def scenario_replica_def)
  have l: "NotFoundStr \<notin> set (replicas s)" by (simp add: reps scenario_peer_def)
  have i: "Inr (pp_primary_replica_id d) \<in> set (map (peer_id s) (replicas s))"
    by (simp add: reps rid d_def)
  have r: "received_pre_prepare_messages s = []" by (simp add: s_def scenario_replica_def)
  have h: "hcd s = []" by (simp add: s_def scenario_replica_def)
  have a: "\<forall>r \<in> set (received_pre_prepare_messages s).
      pp_sequence_number r = pp_sequence_number d \<longrightarrow> pp_request_msg r = pp_request_msg d"
    by (simp add: r)
  have w: "hcd s = [] \<or> (pp_sequence_number d \<le> sequence_number (last (hcd s)) + 2
                            \<and> sequence_number (last (hcd s)) - 2 \<le> pp_sequence_number d)"
    using h by (rule disjI1)
  note t = receive_pre_prepare_primary_and_backup_alike [where s = s and b = True and d = d,
      THEN conjunct2, THEN mp, OF conjI [OF l conjI [OF i conjI [OF a w]]]]
  from t obtain sent where
    s1: "receive_pre_prepare s d =
          (s\<lparr>received_pre_prepare_messages :=
               (if received_pre_prepare_messages s = [] then [d, d]
                else received_pre_prepare_messages s @ [d])\<rparr>, sent, None)"
    and s3: "map (\<lambda>dg. snd (snd dg)) sent =
          replicate (length (replicas s))
            (WPrepare \<lparr>p_replica_id = replica_id s, p_view = view s,
                       p_sequence_number = pp_sequence_number d,
                       p_request_msg = pp_request_msg d\<rparr>)"
    by (elim exE conjE)
  from s1 have s1': "receive_pre_prepare s d = (s\<lparr>received_pre_prepare_messages := [d, d]\<rparr>, sent, None)"
    by (simp add: r)
  from s3 have s3': "map (\<lambda>dg. snd (snd dg)) sent =
          [WPrepare \<lparr>p_replica_id = 0, p_view = 0, p_sequence_number = 3, p_request_msg = ''x''\<rparr>,
           WPrepare \<lparr>p_replica_id = 0, p_view = 0, p_sequence_number = 3, p_request_msg = ''x''\<rparr>]"
    by (simp add: reps rid v d_def)
  from s1' s3' have e: "\<exists>sent. receive_pre_prepare s d
        = (s\<lparr>received_pre_prepare_messages := [d, d]\<rparr>, sent, None)
     \<and> map (\<lambda>dg. snd (snd dg)) sent =
          [WPrepare \<lparr>p_replica_id = 0, p_view = 0, p_sequence_number = 3, p_request_msg = ''x''\<rparr>,
           WPrepare \<lparr>p_replica_id = 0, p_view = 0, p_sequence_number = 3, p_request_msg = ''x''\<rparr>]"
    by (intro exI [of _ sent] conjI)
  from i have i': "Inr 0 \<in> set (map (peer_id s) (replicas s))" by (simp add: d_def)
  from p l i' r h e show ?thesis unfolding s_def d_def by (intro conjI)
qed

text \<open>
  Claim C7 as stated fails: replica 0, constructed as the primary of view 0 with itself
  and replica 1 in its list, receives its own pre-prepare and multicasts a PREPARE to
  both.
\<close>

theorem receive_pre_prepare_primary_counterexample:
  "Replica_init 0 ''hcd'' ''localhost'' 5000 1 0 [] [SelfRef, scenario_peer 1]
     = Inr (scenario_replica 0 True 1 [SelfRef, scenario_peer 1] [], 1)
   \<and> is_primary (scenario_replica 0 True 1 [SelfRef, scenario_peer 1] [])
   \<and> snd (receive_pre_prepare (scenario_replica 0 True 1 [SelfRef, scenario_peer 1] [])
        \<lparr>pp_primary_replica_id = 0, pp_view = 0, pp_sequence_number = 0, pp_request_msg = ''x''\<rparr>)
      = ([(''localhost'', 5000, WPrepare \<lparr>p_replica_id = 0, p_view = 0, p_sequence_number = 0,
                                         p_request_msg = ''x''\<rparr>),
          (''localhost'', 5001, WPrepare \<lparr>p_replica_id = 0, p_view = 0, p_sequence_number = 0,
                                         p_request_msg = ''x''\<rparr>)], None)"
  by (simp add: Replica_init_def scenario_replica_def scenario_peer_def is_primary_def
      receive_pre_prepare_def note_sender_def find_replica_def add_replica_def
      multicast_message_def Let_def)

lemma find_replica_accepted:
  "note_sender s rid = Inr s1 \<Longrightarrow>
     accepted_requests s1 = accepted_requests s \<and> fault_tolerance s1 = fault_tolerance s"
  by (auto simp: note_sender_def add_replica_def split: sum.splits if_splits)

lemma record_commit_accepted:
  "accepted_requests (record_commit s ref d) = accepted_requests s
   \<and> fault_tolerance (record_commit s ref d) = fault_tolerance s"
  by (simp add: record_commit_def Let_def)

text \<open>
  Claim C10. Let no request be accepted, let the lookup of the commit's sender return
  (so that the commit is recorded), and let the commit complete a quorum: with it, at
  least \<open>2f + 1\<close> recorded commits carry its sequence number and digest. Then
  \<^verbatim>\<open>receive_commit\<close> takes the branch \<^verbatim>\<open>self.accepted_requests[0]\<close> on the empty list
  and raises \<^verbatim>\<open>IndexError\<close>, having sent nothing.
\<close>

theorem receive_commit_empty_accepted_requests:
  assumes "accepted_requests s = []"
    and "note_sender s (c_replica_id d) = Inr s1"
    and "fault_tolerance s * 2 + 1 \<le> matching_commits (record_commit s1 ref d) d"
  shows "receive_commit str_int str_float str_hcd s (ref, d)
           = (record_commit s1 ref d, [], Some IndexError)"
proof -
  have a: "accepted_requests (record_commit s1 ref d) = []"
    using assms(1,2) find_replica_accepted record_commit_accepted by metis
  have f: "fault_tolerance (record_commit s1 ref d) = fault_tolerance s"
    using assms(2) find_replica_accepted record_commit_accepted by metis
  have q: "commit_quorum_reached str_int str_float str_hcd (record_commit s1 ref d) d
             = (record_commit s1 ref d, [], Some IndexError)"
    by (simp add: commit_quorum_reached_def a py_index_def)
  show ?thesis
    using assms(2,3) by (simp add: receive_commit_def Let_def f q)
qed

theorem receive_commit_empty_accepted_requests_witness:
  "accepted_requests (scenario_replica 0 True 0 [SelfRef] []) = []
   \<and> note_sender (scenario_replica 0 True 0 [SelfRef] []) 0 = Inr (scenario_replica 0 True 0 [SelfRef] [])
   \<and> (0::int) * 2 + 1 \<le> matching_commits (record_commit (scenario_replica 0 True 0 [SelfRef] []) 1
          \<lparr>c_replica_id = 0, c_view = 0, c_sequence_number = 0, c_hcd = ''h''\<rparr>)
          \<lparr>c_replica_id = 0, c_view = 0, c_sequence_number = 0, c_hcd = ''h''\<rparr>
   \<and> receive_commit (\<lambda>i. []) (\<lambda>x. []) (\<lambda>h. h) (scenario_replica 0 True 0 [SelfRef] [])
        (1, \<lparr>c_replica_id = 0, c_view = 0, c_sequence_number = 0, c_hcd = ''h''\<rparr>)
      = (record_commit (scenario_replica 0 True 0 [SelfRef] []) 1
           \<lparr>c_replica_id = 0, c_view = 0, c_sequence_number = 0, c_hcd = ''h''\<rparr>, [], Some IndexError)"
proof -
  let ?s = "scenario_replica 0 True 0 [SelfRef] []"
  let ?d = "\<lparr>c_replica_id = 0, c_view = 0, c_sequence_number = 0, c_hcd = ''h''\<rparr>"
  have a: "accepted_requests ?s = []" by (simp add: scenario_replica_def)
  have n: "note_sender ?s (c_replica_id ?d) = Inr ?s"
    by (simp add: scenario_replica_def note_sender_def find_replica_def)
  have q: "fault_tolerance ?s * 2 + 1 \<le> matching_commits (record_commit ?s 1 ?d) ?d"
    by (simp add: scenario_replica_def matching_commits_def record_commit_def Let_def)
  note r = receive_commit_empty_accepted_requests [OF a n q, of "\<lambda>i. []" "\<lambda>x. []" "\<lambda>h. h"]
  have f0: "fault_tolerance ?s = 0" by (simp add: scenario_replica_def)
  from a n q r f0 show ?thesis by simp
qed



lemma request_string_not_reply_string:
  "RequestMessage_to_string si sf d \<noteq> ReplyMessage_to_string si sf sh r"
  by (simp add: RequestMessage_to_string_def ReplyMessage_to_string_def Message_to_string_def)

lemma differs_from_cached_object:
  "differs_from_cached si sf sh d (Some (ReplyObject r)) = Inr True"
  by (simp add: differs_from_cached_def request_string_not_reply_string)

text \<open>
  Claim C6 against the code. \<^verbatim>\<open>receive_request\<close> compares the request's timestamp with
  the timestamp of the last hash-chain block, not with the cached reply's, and it calls
  \<^verbatim>\<open>to_string()\<close> on the cached value. Replica 1 holds a cached reply with timestamp 5
  for client 0. With an empty chain, a request with the same timestamp 5 is not answered
  from the cache: it is accepted for ordering and the timer is started. With a last block
  stamped 9, a request with the later timestamp 7 is dropped without any effect. And when
  the cache holds the string that \<^verbatim>\<open>receive_commit\<close> stores, the request raises
  \<^verbatim>\<open>AttributeError\<close>.
\<close>

theorem receive_request_failing_inputs:
  "(\<forall>si sf sh.
      receive_request si sf sh
        ((scenario_replica 1 False 1 [] [scenario_client 1 []])
           \<lparr>reply_cache := [0 \<mapsto> ReplyObject (ReplyMessage_init 0 5 (ResultStr ''True'') 1 0 0 ''h'')]\<rparr>)
        (scenario_request 5)
      = ((scenario_replica 1 False 1 [] [scenario_client 1 []])
           \<lparr>reply_cache := [0 \<mapsto> ReplyObject (ReplyMessage_init 0 5 (ResultStr ''True'') 1 0 0 ''h'')],
            accepted_requests := [scenario_request 5], timer := True\<rparr>, [], None))
   \<and> (\<forall>si sf sh.
      receive_request si sf sh
        ((scenario_replica 1 False 1 [] [scenario_client 1 []])
           \<lparr>reply_cache := [0 \<mapsto> ReplyObject (ReplyMessage_init 0 5 (ResultStr ''True'') 1 0 0 ''h'')],
            hcd := [HashChainBlock_init (\<lambda>p. p) (\<lambda>d. d) ''x'' 0 9 ''0'']\<rparr>)
        (scenario_request 7)
      = ((scenario_replica 1 False 1 [] [scenario_client 1 []])
           \<lparr>reply_cache := [0 \<mapsto> ReplyObject (ReplyMessage_init 0 5 (ResultStr ''True'') 1 0 0 ''h'')],
            hcd := [HashChainBlock_init (\<lambda>p. p) (\<lambda>d. d) ''x'' 0 9 ''0'']\<rparr>, [], None))
   \<and> (\<forall>si sf sh str.
      receive_request si sf sh
        ((scenario_replica 1 False 1 [] [scenario_client 1 []])\<lparr>reply_cache := [0 \<mapsto> ReplyString str]\<rparr>)
        (scenario_request 5)
      = ((scenario_replica 1 False 1 [] [scenario_client 1 []])\<lparr>reply_cache := [0 \<mapsto> ReplyString str]\<rparr>,
         [], Some AttributeError))"
proof (intro conjI allI)
  fix si :: "int \<Rightarrow> string" and sf :: "real \<Rightarrow> string" and sh :: "string \<Rightarrow> string"
  show "receive_request si sf sh
        ((scenario_replica 1 False 1 [] [scenario_client 1 []])
           \<lparr>reply_cache := [0 \<mapsto> ReplyObject (ReplyMessage_init 0 5 (ResultStr ''True'') 1 0 0 ''h'')]\<rparr>)
        (scenario_request 5)
      = ((scenario_replica 1 False 1 [] [scenario_client 1 []])
           \<lparr>reply_cache := [0 \<mapsto> ReplyObject (ReplyMessage_init 0 5 (ResultStr ''True'') 1 0 0 ''h'')],
            accepted_requests := [scenario_request 5], timer := True\<rparr>, [], None)"
    by (simp add: receive_request_def differs_from_cached_object
        scenario_replica_def scenario_client_def scenario_request_def find_client_def
        get_current_system_state_def build_counter_def client_state_allows_def is_primary_def
        start_timer_def Let_def)
  show "receive_request si sf sh
        ((scenario_replica 1 False 1 [] [scenario_client 1 []])
           \<lparr>reply_cache := [0 \<mapsto> ReplyObject (ReplyMessage_init 0 5 (ResultStr ''True'') 1 0 0 ''h'')],
            hcd := [HashChainBlock_init (\<lambda>p. p) (\<lambda>d. d) ''x'' 0 9 ''0'']\<rparr>)
        (scenario_request 7)
      = ((scenario_replica 1 False 1 [] [scenario_client 1 []])
           \<lparr>reply_cache := [0 \<mapsto> ReplyObject (ReplyMessage_init 0 5 (ResultStr ''True'') 1 0 0 ''h'')],
            hcd := [HashChainBlock_init (\<lambda>p. p) (\<lambda>d. d) ''x'' 0 9 ''0'']\<rparr>, [], None)"
    by (simp add: receive_request_def differs_from_cached_object
        scenario_replica_def scenario_request_def HashChainBlock_init_def Let_def)
next
  fix si :: "int \<Rightarrow> string" and sf :: "real \<Rightarrow> string" and sh :: "string \<Rightarrow> string" and str
  show "receive_request si sf sh
        ((scenario_replica 1 False 1 [] [scenario_client 1 []])\<lparr>reply_cache := [0 \<mapsto> ReplyString str]\<rparr>)
        (scenario_request 5)
      = ((scenario_replica 1 False 1 [] [scenario_client 1 []])\<lparr>reply_cache := [0 \<mapsto> ReplyString str]\<rparr>,
         [], Some AttributeError)"
    by (simp add: receive_request_def differs_from_cached_def
        scenario_replica_def scenario_request_def Let_def)
qed

text \<open>
  Claim C8 against the code. No run of \<^verbatim>\<open>receive_view_change\<close> sends anything: every
  run raises, either in the lookup of the replica's own entry or right after the test. In
  particular replica 0, whose own last entry is (view 1, sequence number 5), receives a
  VIEW\_CHANGE whose entry (view 0, sequence number 3) is strictly behind, and raises
  \<^verbatim>\<open>AttributeError\<close> without sending PRIMARY\_NOT\_DOMINANT.
\<close>

theorem receive_view_change_never_replies:
  "(\<forall>(s :: (string, string) Replica) d. \<exists>s' e. receive_view_change s d = (s', [], Some e))
   \<and> strictly_behind (VersionVectorEntry_init 1 0 3 ''g'') (VersionVectorEntry_init 0 1 5 ''h'')
   \<and> receive_view_change
        ((scenario_replica 0 True 1 [] [])\<lparr>version_vector := [(0, [VersionVectorEntry_init 0 1 5 ''h''])]\<rparr>)
        \<lparr>vc_new_view = 1, vc_replica_id = 1,
         vc_version_vector_entry = VersionVectorEntry_init 1 0 3 ''g'', vc_P = []\<rparr>
      = ((scenario_replica 0 True 1 [] [])
           \<lparr>version_vector := [(0, [VersionVectorEntry_init 0 1 5 ''h''])],
            received_view_change_messages :=
              [\<lparr>vc_new_view = 1, vc_replica_id = 1,
                vc_version_vector_entry = VersionVectorEntry_init 1 0 3 ''g'', vc_P = []\<rparr>]\<rparr>,
         [], Some AttributeError)"
proof (intro conjI allI)
  fix s :: "(string, string) Replica" and d
  show "\<exists>s' e. receive_view_change s d = (s', [], Some e)"
    by (simp add: receive_view_change_def Let_def split: sum.splits)
next
  show "strictly_behind (VersionVectorEntry_init 1 0 3 ''g'') (VersionVectorEntry_init 0 1 5 ''h'')"
    by (simp add: strictly_behind_def VersionVectorEntry_init_def)
next
  show "receive_view_change
        ((scenario_replica 0 True 1 [] [])\<lparr>version_vector := [(0, [VersionVectorEntry_init 0 1 5 ''h''])]\<rparr>)
        \<lparr>vc_new_view = 1, vc_replica_id = 1,
         vc_version_vector_entry = VersionVectorEntry_init 1 0 3 ''g'', vc_P = []\<rparr>
      = ((scenario_replica 0 True 1 [] [])
           \<lparr>version_vector := [(0, [VersionVectorEntry_init 0 1 5 ''h''])],
            received_view_change_messages :=
              [\<lparr>vc_new_view = 1, vc_replica_id = 1,
                vc_version_vector_entry = VersionVectorEntry_init 1 0 3 ''g'', vc_P = []\<rparr>]\<rparr>,
         [], Some AttributeError)"
    by (simp add: receive_view_change_def scenario_replica_def get_entry_def get_entries_def
        py_index_def VersionVectorEntry_init_def Let_def)
qed


section \<open>Client\<close>

text \<open>
  Claim C9 against the code. A client with \<open>f = 1\<close> and one pending request with
  timestamp 1 receives three replies from the replicas 0, 1 and 2 that match pairwise in
  the specification's sense. After the third, \<^verbatim>\<open>handle_reply\<close> returns \<^verbatim>\<open>False\<close>: the
  request is still pending and the version vector is still empty, because the entries of
  two different reply objects never compare equal.
\<close>

theorem handle_reply_failing_input:
  "spec_match (scenario_reply 0) (scenario_reply 1)
   \<and> spec_match (scenario_reply 0) (scenario_reply 2)
   \<and> spec_match (scenario_reply 1) (scenario_reply 2)
   \<and> handle_reply
        (fst (handle_reply
           (fst (handle_reply (scenario_client 1 [scenario_request 1]) (10, scenario_reply 0)))
           (11, scenario_reply 1)))
        (12, scenario_reply 2)
      = ((scenario_client 1 [scenario_request 1])
           \<lparr>received_replies := [(10, scenario_reply 0), (11, scenario_reply 1), (12, scenario_reply 2)]\<rparr>,
         Inr (Some False))"
  by (simp add: spec_match_def scenario_reply_def ReplyMessage_init_def handle_reply_def
      scenario_client_def scenario_request_def reply_total_def matching_replies_def
      entries_match_def Let_def)


end
